theory Spec2Isabelle
  imports Main
begin

section \<open>JavaScript values\<close>

text \<open>
  The webhook manager (\<^verbatim>\<open>backend/classes/webhook-manager.js\<close>) works on JSON-like
  JavaScript values: database rows, parsed header and payload objects, event data.
  A value is \<open>undefined\<close>, \<open>null\<close>, a boolean, a number, a string, an array or a plain
  object. An object is the list of its own enumerable properties in enumeration order;
  \<open>JNative\<close> stands for a value that is not data (a built-in function found on a
  prototype), carrying its textual form. Numbers are restricted to the integers that
  JavaScript holds exactly and prints in full (magnitude below \<open>2\<^sup>5\<^sup>3\<close>); strings are
  sequences of code units below 256.
\<close>

datatype jsval =
    JUndefined
  | JNull
  | JBool bool
  | JNum int
  | JStr string
  | JArr "jsval list"
  | JObj "(string \<times> jsval) list"
  | JNative string

datatype response = Response (status: int) (rdata: jsval)

text \<open>
  What a \<^verbatim>\<open>throw\<close> or a rejected promise carries. An axios error has
  \<^verbatim>\<open>error.response\<close> when the server answered and axios rejected the status. The
  messages of the type errors are those of Node's engine.
\<close>

datatype exn =
    TypeError string
  | SyntaxError string
  | AxiosError string "response option"
  | DbError string

fun message :: "exn \<Rightarrow> string" where
  "message (TypeError m) = m"
| "message (SyntaxError m) = m"
| "message (AxiosError m r) = m"
| "message (DbError m) = m"

fun error_response :: "exn \<Rightarrow> response option" where
  "error_response (AxiosError m r) = r"
| "error_response e = None"

text \<open>
  The properties a value inherits from the built-in prototypes (\<^verbatim>\<open>toString\<close>,
  \<^verbatim>\<open>constructor\<close>, the array and string methods, ...) belong to the JavaScript
  runtime, not to this repository: they are a parameter, \<open>JUndefined\<close> where the
  prototype chain has no such property.
\<close>

type_synonym builtins = "jsval \<Rightarrow> string \<Rightarrow> jsval"

fun typeof :: "jsval \<Rightarrow> string" where
  "typeof JUndefined = ''undefined''"
| "typeof JNull = ''object''"
| "typeof (JBool b) = ''boolean''"
| "typeof (JNum n) = ''number''"
| "typeof (JStr s) = ''string''"
| "typeof (JArr xs) = ''object''"
| "typeof (JObj kvs) = ''object''"
| "typeof (JNative s) = ''function''"

text \<open>Truthiness, as \<^verbatim>\<open>a || b\<close> tests it.\<close>

fun truthy :: "jsval \<Rightarrow> bool" where
  "truthy JUndefined = False"
| "truthy JNull = False"
| "truthy (JBool b) = b"
| "truthy (JNum n) = (n \<noteq> 0)"
| "truthy (JStr s) = (s \<noteq> [])"
| "truthy (JArr xs) = True"
| "truthy (JObj kvs) = True"
| "truthy (JNative s) = True"

definition or_else :: "jsval \<Rightarrow> jsval \<Rightarrow> jsval" where
  "or_else a b = (if truthy a then a else b)"

subsection \<open>Numbers and array indices as text\<close>

fun show_nat :: "nat \<Rightarrow> string" where
  "show_nat n =
     (if n < 10 then [char_of (48 + n)]
      else show_nat (n div 10) @ [char_of (48 + n mod 10)])"

declare show_nat.simps [simp del]

definition show_int :: "int \<Rightarrow> string" where
  "show_int i = (if i < 0 then CHR ''-'' # show_nat (nat (- i)) else show_nat (nat i))"

definition is_digit :: "char \<Rightarrow> bool" where
  "is_digit c = (48 \<le> (of_char c :: nat) \<and> (of_char c :: nat) \<le> 57)"

definition digits_to_nat :: "string \<Rightarrow> nat" where
  "digits_to_nat k = foldl (\<lambda>a c. 10 * a + (of_char c - 48)) 0 k"

text \<open>
  A property key is an array index when it is the canonical decimal form of a natural
  number: \<^verbatim>\<open>"0"\<close> and \<^verbatim>\<open>"12"\<close> are, \<^verbatim>\<open>"01"\<close> and \<^verbatim>\<open>""\<close> are not.
\<close>

definition array_index :: "string \<Rightarrow> nat option" where
  "array_index k =
     (case k of
        [] \<Rightarrow> None
      | c # cs \<Rightarrow>
          if list_all is_digit k \<and> (if c = CHR ''0'' then cs = [] else True)
          then Some (digits_to_nat k) else None)"

subsection \<open>Property access and conversion to text\<close>

text \<open>
  \<^verbatim>\<open>value[key]\<close>: a \<open>TypeError\<close> on \<open>undefined\<close> and \<open>null\<close>; an own property of an
  object, an element or the length of an array, a character or the length of a
  string; otherwise whatever the prototype chain gives.
\<close>

definition cannot_read :: "string \<Rightarrow> string \<Rightarrow> string" where
  "cannot_read what key =
     ''Cannot read properties of '' @ what @ '' (reading '' @ [CHR 0x27] @ key @ [CHR 0x27] @ '')''"

fun get_prop :: "builtins \<Rightarrow> jsval \<Rightarrow> string \<Rightarrow> exn + jsval" where
  "get_prop B JUndefined key = Inl (TypeError (cannot_read ''undefined'' key))"
| "get_prop B JNull key = Inl (TypeError (cannot_read ''null'' key))"
| "get_prop B (JObj kvs) key =
     (case map_of kvs key of Some v \<Rightarrow> Inr v | None \<Rightarrow> Inr (B (JObj kvs) key))"
| "get_prop B (JArr xs) key =
     (if key = ''length'' then Inr (JNum (int (length xs)))
      else case array_index key of
             Some i \<Rightarrow> if i < length xs then Inr (xs ! i) else Inr (B (JArr xs) key)
           | None \<Rightarrow> Inr (B (JArr xs) key))"
| "get_prop B (JStr s) key =
     (if key = ''length'' then Inr (JNum (int (length s)))
      else case array_index key of
             Some i \<Rightarrow> if i < length s then Inr (JStr [s ! i]) else Inr (B (JStr s) key)
           | None \<Rightarrow> Inr (B (JStr s) key))"
| "get_prop B v key = Inr (B v key)"

text \<open>
  \<^verbatim>\<open>String(value)\<close>, the conversion \<^verbatim>\<open>String.prototype.replace\<close> applies to what its
  callback returns. An array is its elements joined by commas, \<open>null\<close> and \<open>undefined\<close>
  elements being empty; a plain object is \<^verbatim>\<open>[object Object]\<close>, unless it has an own
  property \<^verbatim>\<open>toString\<close>, which as data is not callable: then the conversion throws.
\<close>

fun ToString :: "jsval \<Rightarrow> exn + string"
  and join :: "jsval list \<Rightarrow> exn + string" where
  "ToString JUndefined = Inr ''undefined''"
| "ToString JNull = Inr ''null''"
| "ToString (JBool b) = Inr (if b then ''true'' else ''false'')"
| "ToString (JNum n) = Inr (show_int n)"
| "ToString (JStr s) = Inr s"
| "ToString (JNative s) = Inr s"
| "ToString (JObj kvs) =
     (case map_of kvs ''toString'' of
        None \<Rightarrow> Inr ''[object Object]''
      | Some f \<Rightarrow> Inl (TypeError ''Cannot convert object to primitive value''))"
| "ToString (JArr xs) = join xs"
| "join [] = Inr []"
| "join (x # xs) =
     (case (if x = JUndefined \<or> x = JNull then Inr [] else ToString x) of
        Inl e \<Rightarrow> Inl e
      | Inr s \<Rightarrow>
          (case join xs of
             Inl e \<Rightarrow> Inl e
           | Inr r \<Rightarrow> Inr (if xs = [] then s else s @ CHR '','' # r)))"

section \<open>The template compiler\<close>

subsection \<open>Path resolution\<close>

definition is_space :: "char \<Rightarrow> bool" where
  "is_space c = ((of_char c :: nat) \<in> {9, 10, 11, 12, 13, 32, 160})"

definition trim :: "string \<Rightarrow> string" where
  "trim s = rev (dropWhile is_space (rev (dropWhile is_space s)))"

text \<open>\<^verbatim>\<open>path.split('.')\<close>: the empty string splits into one empty segment.\<close>

fun split_dot :: "string \<Rightarrow> string list" where
  "split_dot [] = [[]]"
| "split_dot (c # cs) =
     (if c = CHR ''.'' then [] # split_dot cs
      else (case split_dot cs of [] \<Rightarrow> [[c]] | x # xs \<Rightarrow> (c # x) # xs))"

text \<open>
  The loop of the callback:
  \<^verbatim>\<open>for (const key of keys) { if (value === undefined) return match; value = value[key]; }\<close>
  \<open>None\<close> is the early return of the match; a property access may throw.
\<close>

fun walk :: "builtins \<Rightarrow> jsval \<Rightarrow> string list \<Rightarrow> exn + jsval option" where
  "walk B v [] = Inr (Some v)"
| "walk B v (key # keys) =
     (if v = JUndefined then Inr None
      else case get_prop B v key of
             Inl e \<Rightarrow> Inl e
           | Inr v' \<Rightarrow> walk B v' keys)"

text \<open>
  The callback \<^verbatim>\<open>(match, path) => ...\<close> given to \<^verbatim>\<open>replace\<close>; after the loop it
  returns \<^verbatim>\<open>value !== undefined ? value : match\<close>.
\<close>

definition callback :: "builtins \<Rightarrow> jsval \<Rightarrow> string \<Rightarrow> string \<Rightarrow> exn + jsval" where
  "callback B data match path =
     (case walk B data (split_dot (trim path)) of
        Inl e \<Rightarrow> Inl e
      | Inr None \<Rightarrow> Inr (JStr match)
      | Inr (Some v) \<Rightarrow> Inr (if v \<noteq> JUndefined then v else JStr match))"

subsection \<open>Replacing placeholders\<close>

text \<open>
  The regular expression \<^verbatim>\<open>/\{\{([^}]+)\}\}/g\<close> at the head of a string: two opening
  braces, a non-empty run of characters other than \<^verbatim>\<open>}\<close> (greedy, so the run is
  maximal), two closing braces. The result is the captured path and the rest of the
  string after the match.
\<close>

definition not_close :: "char \<Rightarrow> bool" where
  "not_close c = (c \<noteq> CHR ''}'')"

definition match_here :: "string \<Rightarrow> (string \<times> string) option" where
  "match_here s =
     (case s of
        a # b # t \<Rightarrow>
          if a = CHR ''{'' \<and> b = CHR ''{'' \<and> takeWhile not_close t \<noteq> []
          then (case dropWhile not_close t of
                  c # d # rest \<Rightarrow>
                    if c = CHR ''}'' \<and> d = CHR ''}''
                    then Some (takeWhile not_close t, rest) else None
                | _ \<Rightarrow> None)
          else None
      | _ \<Rightarrow> None)"

definition placeholder :: "string \<Rightarrow> string" where
  "placeholder path = ''{{'' @ path @ ''}}''"

text \<open>
  \<^verbatim>\<open>template.replace(regex, f)\<close> with the global flag: matches are found from left to
  right, without overlap; each is replaced by the text of what \<open>f\<close> returns for it, and
  a throw of \<open>f\<close> or of the conversion to text ends the whole replacement.
\<close>

function replace :: "(string \<Rightarrow> string \<Rightarrow> exn + jsval) \<Rightarrow> string \<Rightarrow> exn + string" where
  "replace f [] = Inr []"
| "replace f (c # cs) =
     (case match_here (c # cs) of
        Some (path, rest) \<Rightarrow>
          (case f (placeholder path) path of
             Inl e \<Rightarrow> Inl e
           | Inr v \<Rightarrow>
               (case ToString v of
                  Inl e \<Rightarrow> Inl e
                | Inr r \<Rightarrow>
                    (case replace f rest of
                       Inl e \<Rightarrow> Inl e
                     | Inr out \<Rightarrow> Inr (r @ out))))
      | None \<Rightarrow>
          (case replace f cs of
             Inl e \<Rightarrow> Inl e
           | Inr out \<Rightarrow> Inr (c # out)))"
  by pat_completeness auto
termination
proof (relation "measure (\<lambda>(f, s). length s)")
  fix f :: "string \<Rightarrow> string \<Rightarrow> exn + jsval" and c cs x2 path rest v r
  assume "match_here (c # cs) = Some x2" and "(path, rest) = x2"
  then obtain b t x y where s: "c # cs = c # b # t"
    and d: "dropWhile not_close t = x # y # rest"
    by (auto simp: match_here_def split: list.splits if_splits)
  have "length (dropWhile not_close t) \<le> length t"
    by (rule length_dropWhile_le)
  with s d show "((f, rest), (f, c # cs)) \<in> measure (\<lambda>(f, s). length s)"
    by simp
qed simp_all

text \<open>The paths captured by the matches that \<open>replace\<close> finds in a string, in order.\<close>

function placeholders :: "string \<Rightarrow> string list" where
  "placeholders [] = []"
| "placeholders (c # cs) =
     (case match_here (c # cs) of
        Some (path, rest) \<Rightarrow> path # placeholders rest
      | None \<Rightarrow> placeholders cs)"
  by pat_completeness auto
termination
proof (relation "measure length")
  fix c cs x2 path rest
  assume "match_here (c # cs) = Some x2" and "(path, rest) = x2"
  then obtain b t x y where s: "c # cs = c # b # t"
    and d: "dropWhile not_close t = x # y # rest"
    by (auto simp: match_here_def split: list.splits if_splits)
  have "length (dropWhile not_close t) \<le> length t"
    by (rule length_dropWhile_le)
  with s d show "(rest, c # cs) \<in> measure length"
    by simp
qed simp_all

subsection \<open>compileTemplate\<close>

text \<open>
  \<^verbatim>\<open>result[key] = v\<close> on an object that started as \<^verbatim>\<open>{}\<close>: the key
  \<^verbatim>\<open>__proto__\<close> reaches the setter of \<^verbatim>\<open>Object.prototype\<close> and creates no own
  property; any other key is overwritten in place or appended.
\<close>

fun update_prop :: "string \<Rightarrow> jsval \<Rightarrow> (string \<times> jsval) list \<Rightarrow> (string \<times> jsval) list" where
  "update_prop k v [] = [(k, v)]"
| "update_prop k v ((k', v') # ps) =
     (if k' = k then (k, v) # ps else (k', v') # update_prop k v ps)"

definition assign :: "(string \<times> jsval) list \<Rightarrow> string \<Rightarrow> jsval \<Rightarrow> (string \<times> jsval) list" where
  "assign result key v = (if key = ''__proto__'' then result else update_prop key v result)"

text \<open>
  \<^verbatim>\<open>
  compileTemplate(template, data) {
    if (typeof template === 'object') {
      return Object.keys(template).reduce((result, key) => {
        result[key] = this.compileTemplate(template[key], data);
        return result;
      }, {});
    } else if (typeof template === 'string') {
      return template.replace(/\{\{([^}]+)\}\}/g, (match, path) => { ... });
    }
    return template;
  }
  \<close>
  \<^verbatim>\<open>typeof\<close> is \<^verbatim>\<open>'object'\<close> for plain objects, for arrays and for \<open>null\<close>.
  \<^verbatim>\<open>Object.keys(null)\<close> throws. The keys of an array are its indices in decimal, so
  the reduction runs over the elements with their index (\<open>reduce_elems\<close>); the keys of
  an object are its own properties, so the reduction runs over them in order
  (\<open>reduce_props\<close>). Either way the accumulator is a fresh plain object.
\<close>

fun compileTemplate :: "builtins \<Rightarrow> jsval \<Rightarrow> jsval \<Rightarrow> exn + jsval"
  and reduce_props ::
    "builtins \<Rightarrow> (string \<times> jsval) list \<Rightarrow> jsval \<Rightarrow> (string \<times> jsval) list
      \<Rightarrow> exn + (string \<times> jsval) list"
  and reduce_elems ::
    "builtins \<Rightarrow> nat \<Rightarrow> jsval list \<Rightarrow> jsval \<Rightarrow> (string \<times> jsval) list
      \<Rightarrow> exn + (string \<times> jsval) list" where
  "compileTemplate B JNull data =
     Inl (TypeError ''Cannot convert undefined or null to object'')"
| "compileTemplate B (JObj kvs) data =
     (case reduce_props B kvs data [] of Inl e \<Rightarrow> Inl e | Inr r \<Rightarrow> Inr (JObj r))"
| "compileTemplate B (JArr xs) data =
     (case reduce_elems B 0 xs data [] of Inl e \<Rightarrow> Inl e | Inr r \<Rightarrow> Inr (JObj r))"
| "compileTemplate B (JStr s) data =
     (case replace (callback B data) s of Inl e \<Rightarrow> Inl e | Inr r \<Rightarrow> Inr (JStr r))"
| "compileTemplate B JUndefined data = Inr JUndefined"
| "compileTemplate B (JBool b) data = Inr (JBool b)"
| "compileTemplate B (JNum n) data = Inr (JNum n)"
| "compileTemplate B (JNative f) data = Inr (JNative f)"
| "reduce_props B [] data result = Inr result"
| "reduce_props B ((key, t) # rest) data result =
     (case compileTemplate B t data of
        Inl e \<Rightarrow> Inl e
      | Inr v \<Rightarrow> reduce_props B rest data (assign result key v))"
| "reduce_elems B i [] data result = Inr result"
| "reduce_elems B i (t # rest) data result =
     (case compileTemplate B t data of
        Inl e \<Rightarrow> Inl e
      | Inr v \<Rightarrow> reduce_elems B (Suc i) rest data (assign result (show_nat i) v))"

section \<open>Webhooks, the environment and effects\<close>

text \<open>
  A row of the table \<^verbatim>\<open>webhooks\<close> as the manager reads it. The label is a text
  column; every other column the manager touches is kept as the JavaScript value
  the driver delivers, \<open>JUndefined\<close> when the row has no such field, so that absent
  and ill-typed fields are inputs like any other. The fields \<open>wid\<close> and \<open>wmethod\<close>
  are the columns \<^verbatim>\<open>id\<close> and \<^verbatim>\<open>method\<close>.
\<close>

record webhook =
  wid :: jsval
  name :: string
  url :: jsval
  wmethod :: jsval
  headers :: jsval
  payload :: jsval

text \<open>The configuration object given to \<^verbatim>\<open>axios({...})\<close>.\<close>

record request =
  req_method :: jsval
  req_url :: jsval
  req_headers :: jsval
  req_data :: jsval
  req_timeout :: nat

text \<open>
  The statements the manager gives to \<^verbatim>\<open>dbInstance.query\<close>, each with its parameters:
  \<^item> \<open>SelectByEvent\<close>:
    \<^verbatim>\<open>SELECT * FROM webhooks WHERE trigger_type = $1 AND event_type = $2 AND enabled = true\<close>
  \<^item> \<open>UpdateLastTriggered\<close>:
    \<^verbatim>\<open>UPDATE webhooks SET last_triggered = NOW() WHERE id = $1\<close>
  \<^item> \<open>TopMovies\<close>, \<open>TopSeries\<close>: the ranking queries of \<^verbatim>\<open>getTopWatchedContent\<close>, whose
    only date condition is \<^verbatim>\<open>"ActivityDateInserted" >= $1\<close>, with \<^verbatim>\<open>LIMIT $2\<close>
  \<^item> \<open>Stats\<close>: the statistics query of \<^verbatim>\<open>getMonthlySummaryData\<close>, with
    \<^verbatim>\<open>"ActivityDateInserted" BETWEEN $1 AND $2\<close>
  \<^item> \<open>NoStatement\<close>: \<^verbatim>\<open>undefined\<close>, what \<^verbatim>\<open>getTopWatchedContent\<close> passes for a content
    type that is neither \<^verbatim>\<open>movie\<close> nor \<^verbatim>\<open>series\<close>.
\<close>

datatype sql = SelectByEvent | UpdateLastTriggered | TopMovies | TopSeries | Stats | NoStatement

datatype detail = NoDetail | Msg string | Thrown exn | Data jsval

text \<open>
  What a call does to the outside, in the order it does it: an HTTP request handed to
  axios, a statement handed to the database, a line on the console.
\<close>

datatype effect =
    Http request
  | Query sql "jsval list"
  | ConsoleLog string
  | ConsoleError string detail

text \<open>
  \<^verbatim>\<open>new Date()\<close> as its getters show it, in local time: the year, the month from 0
  to 11, the day of the month from 1, the day of the week from 0 (Sunday).
\<close>

record clock =
  getFullYear :: int
  getMonth :: int
  getDate :: int
  getDay :: int

text \<open>
  What the manager does not decide: the JavaScript runtime (\<open>builtin\<close>,
  \<open>JSON_parse\<close>), the remote end as seen through axios (a fulfilled promise is a
  response, a rejected one an error), the database module \<^verbatim>\<open>../db\<close> (rows of the
  webhook table, rows of the activity table, or a rejection), and the clock:
  \<open>now_iso\<close> is \<^verbatim>\<open>new Date().toISOString()\<close>, \<open>today\<close> is \<^verbatim>\<open>new Date()\<close>, taken to be
  the same day at every call of one run. For a date built at local midnight, given as
  year, month index and day, \<open>getTimezoneOffset\<close> is what the method of that name
  returns: the minutes from local time to UTC, positive west of Greenwich, negative
  east of it; and \<open>month_label\<close> is
  \<^verbatim>\<open>toLocaleString('fr-FR', { month: 'long', year: 'numeric' })\<close>.
\<close>

record env =
  builtin :: builtins
  JSON_parse :: "string \<Rightarrow> exn + jsval"
  axios :: "request \<Rightarrow> exn + response"
  webhook_rows :: "sql \<Rightarrow> jsval list \<Rightarrow> exn + webhook list"
  activity_rows :: "sql \<Rightarrow> jsval list \<Rightarrow> exn + jsval list"
  execute :: "sql \<Rightarrow> jsval list \<Rightarrow> exn option"
  now_iso :: string
  today :: clock
  getTimezoneOffset :: "int \<times> int \<times> int \<Rightarrow> int"
  month_label :: "int \<times> int \<times> int \<Rightarrow> string"

section \<open>Delivering one webhook\<close>

primrec starts_with :: "string \<Rightarrow> string \<Rightarrow> bool" where
  "starts_with s [] = True"
| "starts_with s (c # cs) = (case s of [] \<Rightarrow> False | d # ds \<Rightarrow> d = c \<and> starts_with ds cs)"

primrec contains :: "string \<Rightarrow> string \<Rightarrow> bool" where
  "contains [] sub = (sub = [])"
| "contains (c # cs) sub = (starts_with (c # cs) sub \<or> contains cs sub)"

definition discord_marker :: string where
  "discord_marker = ''discord.com/api/webhooks''"

text \<open>
  \<^verbatim>\<open>webhook.url.includes(s)\<close>: the substring test of a string, the membership test of an
  array; a \<open>TypeError\<close> on anything else, which has no callable \<^verbatim>\<open>includes\<close>.
\<close>

fun js_includes :: "jsval \<Rightarrow> string \<Rightarrow> exn + bool" where
  "js_includes (JStr s) sub = Inr (contains s sub)"
| "js_includes (JArr xs) sub = Inr (JStr sub \<in> set xs)"
| "js_includes JUndefined sub = Inl (TypeError (cannot_read ''undefined'' ''includes''))"
| "js_includes JNull sub = Inl (TypeError (cannot_read ''null'' ''includes''))"
| "js_includes v sub = Inl (TypeError ''webhook.url.includes is not a function'')"

text \<open>
  \<^verbatim>\<open>typeof x === 'string' ? JSON.parse(x || '{}') : (x || {})\<close>
\<close>

fun parse_field :: "env \<Rightarrow> jsval \<Rightarrow> exn + jsval" where
  "parse_field E (JStr s) = JSON_parse E (if s \<noteq> [] then s else ''{}'')"
| "parse_field E v = Inr (or_else v (JObj []))"

text \<open>The inner \<^verbatim>\<open>try\<close> block: headers first, then payload.\<close>

definition parse_webhook :: "env \<Rightarrow> webhook \<Rightarrow> exn + (jsval \<times> jsval)" where
  "parse_webhook E webhook =
     (case parse_field E (headers webhook) of
        Inl e \<Rightarrow> Inl e
      | Inr h \<Rightarrow>
          (case parse_field E (payload webhook) of
             Inl e \<Rightarrow> Inl e
           | Inr p \<Rightarrow> Inr (h, p)))"

definition discord_request :: "webhook \<Rightarrow> jsval \<Rightarrow> request" where
  "discord_request webhook p =
     \<lparr>req_method = or_else (wmethod webhook) (JStr ''POST''),
      req_url = url webhook,
      req_headers = JObj [(''Content-Type'', JStr ''application/json'')],
      req_data = p,
      req_timeout = 10000\<rparr>"

definition generic_request :: "webhook \<Rightarrow> jsval \<Rightarrow> jsval \<Rightarrow> request" where
  "generic_request webhook h compiledPayload =
     \<lparr>req_method = or_else (wmethod webhook) (JStr ''POST''),
      req_url = url webhook,
      req_headers = h,
      req_data = compiledPayload,
      req_timeout = 10000\<rparr>"

text \<open>
  The last statement of the outer \<^verbatim>\<open>try\<close> block: the update of \<^verbatim>\<open>last_triggered\<close>,
  awaited; then \<^verbatim>\<open>return true\<close>.
\<close>

definition record_delivery :: "env \<Rightarrow> webhook \<Rightarrow> (exn + jsval) \<times> effect list" where
  "record_delivery E webhook =
     (case execute E UpdateLastTriggered [wid webhook] of
        Some e \<Rightarrow> (Inl e, [Query UpdateLastTriggered [wid webhook]])
      | None \<Rightarrow> (Inr (JBool True), [Query UpdateLastTriggered [wid webhook]]))"

text \<open>
  \<^verbatim>\<open>await axios(req)\<close>, the success line on the console, then the update. A rejected
  request leaves the block at the \<^verbatim>\<open>await\<close>.
\<close>

definition send :: "env \<Rightarrow> webhook \<Rightarrow> request \<Rightarrow> string \<Rightarrow> (exn + jsval) \<times> effect list" where
  "send E webhook req sent_line =
     (case axios E req of
        Inl e \<Rightarrow> (Inl e, [Http req])
      | Inr resp \<Rightarrow>
          (case record_delivery E webhook of
             (r, fx) \<Rightarrow> (r, [Http req, ConsoleLog sent_line] @ fx)))"

text \<open>
  The body of the outer \<^verbatim>\<open>try\<close> of \<^verbatim>\<open>executeWebhook\<close>: \<open>Inl\<close> is an exception on its
  way to the outer \<^verbatim>\<open>catch\<close>, \<open>Inr\<close> a value returned. A parse error is caught by the
  inner \<^verbatim>\<open>catch\<close>, which logs and returns \<^verbatim>\<open>false\<close>.
\<close>

definition try_deliver :: "env \<Rightarrow> webhook \<Rightarrow> jsval \<Rightarrow> (exn + jsval) \<times> effect list" where
  "try_deliver E webhook data =
     (case js_includes (url webhook) discord_marker of
        Inl e \<Rightarrow> (Inl e, [])
      | Inr isDiscordWebhook \<Rightarrow>
          (case parse_webhook E webhook of
             Inl e \<Rightarrow>
               (Inr (JBool False), [ConsoleError ''[WEBHOOK] Error while parsing:'' (Thrown e)])
           | Inr (h, p) \<Rightarrow>
               if isDiscordWebhook then
                 (case send E webhook (discord_request webhook p)
                         (''[WEBHOOK] Discord webhook '' @ name webhook @ '' send successfully'') of
                    (r, fx) \<Rightarrow> (r, ConsoleLog ''[WEBHOOK] Webhook Discord detected'' # fx))
               else
                 (case compileTemplate (builtin E) p data of
                    Inl e \<Rightarrow> (Inl e, [])
                  | Inr compiledPayload \<Rightarrow>
                      send E webhook (generic_request webhook h compiledPayload)
                        (''[WEBHOOK] Webhook '' @ name webhook @ '' send successfully''))))"

text \<open>The outer \<^verbatim>\<open>catch\<close>: two or three lines on the console, then \<^verbatim>\<open>return false\<close>.\<close>

definition catch_lines :: "webhook \<Rightarrow> exn \<Rightarrow> effect list" where
  "catch_lines webhook error =
     ConsoleError (''[WEBHOOK] Error triggering webhook '' @ name webhook @ '':'')
       (Msg (message error))
     # (case error_response error of
          None \<Rightarrow> []
        | Some r \<Rightarrow>
            [ConsoleError (''[WEBHOOK] Response status: '' @ show_int (status r)) NoDetail,
             ConsoleError ''[WEBHOOK] Response data:'' (Data (rdata r))])"

text \<open>\<^verbatim>\<open>async executeWebhook(webhook, data = {})\<close>\<close>

definition executeWebhook :: "env \<Rightarrow> webhook \<Rightarrow> jsval \<Rightarrow> (exn + jsval) \<times> effect list" where
  "executeWebhook E webhook data0 =
     (let data = (if data0 = JUndefined then JObj [] else data0) in
      case try_deliver E webhook data of
        (Inr v, fx) \<Rightarrow> (Inr v, fx)
      | (Inl error, fx) \<Rightarrow> (Inr (JBool False), fx @ catch_lines webhook error))"

section \<open>Dispatching an event\<close>

definition getWebhooksByEventType :: "env \<Rightarrow> string \<Rightarrow> (exn + webhook list) \<times> effect list" where
  "getWebhooksByEventType E eventType =
     (webhook_rows E SelectByEvent [JStr ''event'', JStr eventType],
      [Query SelectByEvent [JStr ''event'', JStr eventType]])"

text \<open>
  \<^verbatim>\<open>{...data}\<close> copies the own enumerable properties: the properties of an object, the
  elements of an array and the characters of a string under their indices, nothing
  of any other value.
\<close>

primrec indexed :: "nat \<Rightarrow> jsval list \<Rightarrow> (string \<times> jsval) list" where
  "indexed i [] = []"
| "indexed i (x # xs) = (show_nat i, x) # indexed (Suc i) xs"

fun spread :: "jsval \<Rightarrow> (string \<times> jsval) list" where
  "spread (JObj kvs) = kvs"
| "spread (JArr xs) = indexed 0 xs"
| "spread (JStr s) = indexed 0 (map (\<lambda>c. JStr [c]) s)"
| "spread v = []"

text \<open>
  \<^verbatim>\<open>{ ...data, event: eventType, triggeredAt: new Date().toISOString() }\<close>: a later
  property of the literal replaces an earlier one of the same key.
\<close>

definition enrichedData :: "jsval \<Rightarrow> string \<Rightarrow> string \<Rightarrow> jsval" where
  "enrichedData data eventType triggeredAt =
     JObj (update_prop ''triggeredAt'' (JStr triggeredAt)
            (update_prop ''event'' (JStr eventType) (spread data)))"

text \<open>
  \<^verbatim>\<open>await Promise.all(promises)\<close>: the values of all promises when all are fulfilled,
  otherwise the first rejection.
\<close>

primrec Promise_all :: "(exn + jsval) list \<Rightarrow> exn + jsval list" where
  "Promise_all [] = Inr []"
| "Promise_all (p # ps) =
     (case p of
        Inl e \<Rightarrow> Inl e
      | Inr v \<Rightarrow> (case Promise_all ps of Inl e \<Rightarrow> Inl e | Inr vs \<Rightarrow> Inr (v # vs)))"

text \<open>
  An \<^verbatim>\<open>async\<close> function runs up to its first \<^verbatim>\<open>await\<close> when it is called, and goes on
  after an \<^verbatim>\<open>await\<close> when the awaited promise has settled. \<^verbatim>\<open>executeWebhook\<close> awaits
  the request it has handed to axios and the statement it has handed to the database,
  so its effects fall into the part up to the first of these, the part up to the
  second, and the rest.
\<close>

fun suspends :: "effect \<Rightarrow> bool" where
  "suspends (Http req) = True"
| "suspends (Query q ps) = True"
| "suspends (ConsoleLog l) = False"
| "suspends (ConsoleError l d) = False"

fun until_await :: "effect list \<Rightarrow> effect list" where
  "until_await [] = []"
| "until_await (x # fx) = (if suspends x then [x] else x # until_await fx)"

fun after_await :: "effect list \<Rightarrow> effect list" where
  "after_await [] = []"
| "after_await (x # fx) = (if suspends x then fx else after_await fx)"

text \<open>
  \<^verbatim>\<open>webhooks.map(webhook => this.executeWebhook(webhook, enrichedData))\<close> calls every
  delivery in turn, so all of them have run to their first \<^verbatim>\<open>await\<close>, each request
  handed to axios, before any of them goes on. The effects of the deliveries are listed
  in rounds: first what each does up to its first \<^verbatim>\<open>await\<close>, in the order of the list,
  then what each does up to its second, then what is left of each. Within the later
  rounds this is the order in which the deliveries go on when their promises settle in
  the order of the list; the event loop may settle them in any other order.
\<close>

definition in_rounds :: "effect list list \<Rightarrow> effect list" where
  "in_rounds traces =
     concat (map until_await traces)
     @ concat (map (\<lambda>fx. until_await (after_await fx)) traces)
     @ concat (map (\<lambda>fx. after_await (after_await fx)) traces)"

text \<open>
  \<^verbatim>\<open>async triggerEventWebhooks(eventType, data = {})\<close>. The bare \<^verbatim>\<open>return;\<close> of the
  empty case returns \<open>undefined\<close>.
\<close>

definition triggerEventWebhooks :: "env \<Rightarrow> string \<Rightarrow> jsval \<Rightarrow> (exn + jsval) \<times> effect list" where
  "triggerEventWebhooks E eventType data0 =
     (let data = (if data0 = JUndefined then JObj [] else data0) in
      case getWebhooksByEventType E eventType of
        (Inl error, fx) \<Rightarrow>
          (Inr (JBool False),
           fx @ [ConsoleError (''[WEBHOOK] Error triggering webhooks for event '' @ eventType @ '':'')
                   (Thrown error)])
      | (Inr webhooks, fx) \<Rightarrow>
          if length webhooks = 0 then
            (Inr JUndefined,
             fx @ [ConsoleLog (''[WEBHOOK] No webhooks registered for event: '' @ eventType)])
          else
            (let enriched = enrichedData data eventType (now_iso E);
                 promises = map (\<lambda>webhook. executeWebhook E webhook enriched) webhooks;
                 fx' = fx @ [ConsoleLog (''[WEBHOOK] Triggering '' @ show_nat (length webhooks)
                                @ '' webhooks for event: '' @ eventType)]
                          @ in_rounds (map snd promises)
             in case Promise_all (map fst promises) of
                  Inl error \<Rightarrow>
                    (Inr (JBool False),
                     fx' @ [ConsoleError (''[WEBHOOK] Error triggering webhooks for event ''
                                            @ eventType @ '':'') (Thrown error)])
                | Inr vs \<Rightarrow> (Inr (JBool True), fx')))"

section \<open>The monthly digest\<close>

subsection \<open>Calendar dates\<close>

definition is_leap :: "int \<Rightarrow> bool" where
  "is_leap y = (if y mod 400 = 0 then True else if y mod 100 = 0 then False else y mod 4 = 0)"

text \<open>The length of a month, the month given by its index from 0 to 11.\<close>

definition days_in_month :: "int \<Rightarrow> int \<Rightarrow> int" where
  "days_in_month y m =
     (if m = 1 then (if is_leap y then 29 else 28)
      else if m = 3 \<or> m = 5 \<or> m = 8 \<or> m = 10 then 30
      else 31)"

definition prev_month :: "int \<Rightarrow> int \<Rightarrow> int \<times> int" where
  "prev_month y m = (if m = 0 then (y - 1, 11) else (y, m - 1))"

definition next_month :: "int \<Rightarrow> int \<Rightarrow> int \<times> int" where
  "next_month y m = (if m = 11 then (y + 1, 0) else (y, m + 1))"

text \<open>
  A day number outside the month counts on into the neighbouring months: day 0 is the
  last day of the month before, day 32 of January is the first of February.
\<close>

function carry_day :: "int \<Rightarrow> int \<Rightarrow> int \<Rightarrow> int \<times> int \<times> int" where
  "carry_day y m d =
     (if d < 1 then
        (case prev_month y m of (y', m') \<Rightarrow> carry_day y' m' (d + days_in_month y' m'))
      else if days_in_month y m < d then
        (case next_month y m of (y', m') \<Rightarrow> carry_day y' m' (d - days_in_month y m))
      else (y, m, d))"
  by pat_completeness auto
termination
  by (relation "measure (\<lambda>(y, m, d). if d < 1 then nat (32 - d) else nat d)")
     (auto simp: days_in_month_def)

declare carry_day.simps [simp del]

text \<open>
  \<^verbatim>\<open>new Date(year, monthIndex, day)\<close>, read back in local time: a year from 0 to 99
  stands for 1900 to 1999; a month index outside 0 to 11 carries into the year, then
  the day carries into the month.
\<close>

definition new_Date :: "int \<Rightarrow> int \<Rightarrow> int \<Rightarrow> int \<times> int \<times> int" where
  "new_Date y m d =
     carry_day ((if 0 \<le> y \<and> y \<le> 99 then 1900 + y else y) + m div 12) (m mod 12) d"

text \<open>
  \<^verbatim>\<open>d.setMonth(monthIndex)\<close> keeps the day of the month of \<open>d\<close> and carries like the
  constructor.
\<close>

definition setMonth :: "clock \<Rightarrow> int \<Rightarrow> int \<times> int \<times> int" where
  "setMonth d m = carry_day (getFullYear d + m div 12) (m mod 12) (getDate d)"

text \<open>
  The date part of an ISO timestamp: the year in four digits (six and a sign outside
  0 to 9999), the month from 01 to 12, the day.
\<close>

definition padded :: "nat \<Rightarrow> nat \<Rightarrow> string" where
  "padded width n = replicate (width - length (show_nat n)) CHR ''0'' @ show_nat n"

definition iso_text :: "int \<times> int \<times> int \<Rightarrow> string" where
  "iso_text ymd =
     (case ymd of (y, m, d) \<Rightarrow>
        (if 0 \<le> y \<and> y \<le> 9999 then padded 4 (nat y)
         else if y < 0 then CHR ''-'' # padded 6 (nat (- y))
         else CHR ''+'' # padded 6 (nat y))
        @ ''-'' @ padded 2 (nat (m + 1)) @ ''-'' @ padded 2 (nat d))"

text \<open>
  \<^verbatim>\<open>date.toISOString().split('T')[0]\<close> for a date built at local midnight: the
  timestamp is in UTC, where that instant is the local midnight moved by the offset of
  the time zone. West of Greenwich and at Greenwich it falls on the same day, east of
  Greenwich on the day before.
\<close>

definition iso_date :: "env \<Rightarrow> int \<times> int \<times> int \<Rightarrow> string" where
  "iso_date E ymd =
     (case ymd of (y, m, d) \<Rightarrow>
        iso_text (carry_day y m (d + getTimezoneOffset E ymd div 1440)))"

subsection \<open>getTopWatchedContent and getMonthlySummaryData\<close>

text \<open>
  \<^verbatim>\<open>async getTopWatchedContent(contentType, period = 'month', limit = 5)\<close>. The start
  date is the only date the query receives. A database error is caught here, logged,
  and the result is the empty list.
\<close>

definition getTopWatchedContent ::
  "env \<Rightarrow> string \<Rightarrow> string \<Rightarrow> jsval \<Rightarrow> jsval list \<times> effect list" where
  "getTopWatchedContent E contentType period limit =
     (let startDate =
            (if period = ''month'' then
               new_Date (getFullYear (today E)) (getMonth (today E) - 1) 1
             else if period = ''week'' then
               new_Date (getFullYear (today E)) (getMonth (today E))
                 (getDate (today E) - getDay (today E) - 7)
             else new_Date (getFullYear (today E)) (getMonth (today E) - 1) 1);
          formattedStartDate = iso_date E startDate;
          query =
            (if contentType = ''movie'' then TopMovies
             else if contentType = ''series'' then TopSeries
             else NoStatement)
      in case activity_rows E query [JStr formattedStartDate, limit] of
           Inr rows \<Rightarrow> (rows, [Query query [JStr formattedStartDate, limit]])
         | Inl error \<Rightarrow>
             ([], [Query query [JStr formattedStartDate, limit],
                   ConsoleError (''[WEBHOOK] SQL ERROR ('' @ contentType @ ''):'')
                     (Msg (message error))]))"

record digest =
  period_start :: string
  period_end :: string
  period_name :: string
  topMovies :: "jsval list"
  topSeries :: "jsval list"
  stats :: jsval

definition no_stats :: jsval where
  "no_stats = JObj [(''active_users'', JNum 0), (''total_plays'', JNum 0), (''total_hours'', JNum 0)]"

text \<open>
  \<^verbatim>\<open>async getMonthlySummaryData()\<close>: the two rankings, then the statistics of the month
  of \<open>prevMonth\<close>, which is today with the month set one back. An error of the
  statistics query is logged and thrown again.
\<close>

definition getMonthlySummaryData :: "env \<Rightarrow> (exn + digest) \<times> effect list" where
  "getMonthlySummaryData E =
     (case getTopWatchedContent E ''movie'' ''month'' (JNum 5) of
        (movies, fx1) \<Rightarrow>
     (case getTopWatchedContent E ''series'' ''month'' (JNum 5) of
        (series, fx2) \<Rightarrow>
     (case setMonth (today E) (getMonth (today E) - 1) of
        (prevYear, prevMonth, prevDay) \<Rightarrow>
          (let prevMonthStart = new_Date prevYear prevMonth 1;
               prevMonthEnd = new_Date prevYear (prevMonth + 1) 0;
               formattedStart = iso_date E prevMonthStart;
               formattedEnd = iso_date E prevMonthEnd;
               fx = fx1 @ fx2 @ [Query Stats [JStr formattedStart, JStr formattedEnd]]
           in case activity_rows E Stats [JStr formattedStart, JStr formattedEnd] of
                Inl error \<Rightarrow>
                  (Inl error,
                   fx @ [ConsoleError ''[WEBHOOK] Error while getting data:''
                           (Msg (message error))])
              | Inr rows \<Rightarrow>
                  (Inr \<lparr>period_start = formattedStart,
                        period_end = formattedEnd,
                        period_name = month_label E (prevYear, prevMonth, prevDay),
                        topMovies = movies,
                        topSeries = series,
                        stats = (case rows of [] \<Rightarrow> no_stats | r # rs \<Rightarrow> or_else r no_stats)\<rparr>,
                   fx)))))"

section \<open>Observations and concrete scenarios\<close>

text \<open>The HTTP requests among the effects, and the statements given to the database.\<close>

fun http_calls :: "effect list \<Rightarrow> request list" where
  "http_calls [] = []"
| "http_calls (Http req # fx) = req # http_calls fx"
| "http_calls (other # fx) = http_calls fx"

fun statements :: "effect list \<Rightarrow> (sql \<times> jsval list) list" where
  "statements [] = []"
| "statements (Query q ps # fx) = (q, ps) # statements fx"
| "statements (other # fx) = statements fx"

text \<open>The own property of an object under a key.\<close>

fun own :: "jsval \<Rightarrow> string \<Rightarrow> jsval option" where
  "own (JObj kvs) key = map_of kvs key"
| "own v key = None"

text \<open>
  A runtime for the scenarios: a parser that knows two JSON texts and rejects the
  rest, no inherited properties, a remote end that answers 204, a database that has no
  webhook and no activity and executes every statement, the clock of a server in UTC
  on Sunday 31 March 2024.
\<close>

definition toy_parse :: "string \<Rightarrow> exn + jsval" where
  "toy_parse s =
     (if s = ''{}'' then Inr (JObj [])
      else if s = ''null'' then Inr JNull
      else Inl (SyntaxError ''Unexpected token in JSON''))"

definition env_ok :: env where
  "env_ok =
     \<lparr>builtin = (\<lambda>v key. JUndefined),
      JSON_parse = toy_parse,
      axios = (\<lambda>req. Inr (Response 204 (JStr []))),
      webhook_rows = (\<lambda>q ps. Inr []),
      activity_rows = (\<lambda>q ps. Inr []),
      execute = (\<lambda>q ps. None),
      now_iso = ''2024-03-31T08:30:00.000Z'',
      today = \<lparr>getFullYear = 2024, getMonth = 2, getDate = 31, getDay = 0\<rparr>,
      getTimezoneOffset = (\<lambda>ymd. 0),
      month_label = iso_text\<rparr>"

text \<open>The remote end answers 500, which axios turns into a rejection with a response.\<close>

definition env_500 :: env where
  "env_500 =
     env_ok\<lparr>axios := (\<lambda>req. Inl (AxiosError ''Request failed with status code 500''
                                     (Some (Response 500 JNull))))\<rparr>"

text \<open>The database rejects every update.\<close>

definition env_db_down :: env where
  "env_db_down = env_ok\<lparr>execute := (\<lambda>q ps. Some (DbError ''Connection terminated''))\<rparr>"

definition hook :: webhook where
  "hook =
     \<lparr>wid = JNum 7, name = ''ops'', url = JStr ''https://example.org/hook'',
      wmethod = JNull, headers = JStr ''{}'',
      payload = JObj [(''user'', JStr ''{{userName}}'')]\<rparr>"

definition broken_hook :: webhook where
  "broken_hook = hook\<lparr>wid := JNum 8, name := ''broken'', headers := JStr ''{oops''\<rparr>"

definition chat_hook :: webhook where
  "chat_hook =
     \<lparr>wid = JNum 9, name = ''chat'', url = JStr ''https://discord.com/api/webhooks/1/abc'',
      wmethod = JUndefined, headers = JObj [(''X-Token'', JStr ''s3cret'')],
      payload = JObj [(''content'', JStr ''hi {{userName}}'')]\<rparr>"

text \<open>The registry returns two webhooks for every event, the first one malformed.\<close>

definition env_two :: env where
  "env_two = env_ok\<lparr>webhook_rows := (\<lambda>q ps. Inr [broken_hook, hook])\<rparr>"

text \<open>The registry returns three webhooks, the one in the middle malformed.\<close>

definition env_three :: env where
  "env_three = env_ok\<lparr>webhook_rows := (\<lambda>q ps. Inr [hook, broken_hook, chat_hook])\<rparr>"

text \<open>
  Two more webhooks whose headers and payload are well-formed JSON: one without url,
  one with a \<open>null\<close> in its payload.
\<close>

definition no_url_hook :: webhook where
  "no_url_hook = hook\<lparr>wid := JNum 10, name := ''nourl'', url := JNull\<rparr>"

definition null_hook :: webhook where
  "null_hook = hook\<lparr>wid := JNum 11, name := ''null'', payload := JObj [(''note'', JNull)]\<rparr>"

text \<open>
  The registry returns four webhooks, the first one malformed, and the database rejects
  every update.
\<close>

definition env_four_db_down :: env where
  "env_four_db_down =
     env_ok\<lparr>webhook_rows := (\<lambda>q ps. Inr [broken_hook, no_url_hook, null_hook, hook]),
            execute := (\<lambda>q ps. Some (DbError ''Connection terminated''))\<rparr>"

text \<open>
  The same runtime in Paris on that day: local midnight is one hour ahead of UTC in
  winter and until the small hours of 31 March 2024.
\<close>

definition env_paris :: env where
  "env_paris = env_ok\<lparr>getTimezoneOffset := (\<lambda>ymd. - 60)\<rparr>"

text \<open>The same runtime in New York, five hours behind UTC, on Monday 15 January 2024.\<close>

definition env_january :: env where
  "env_january =
     env_ok\<lparr>today := \<lparr>getFullYear = 2024, getMonth = 0, getDate = 15, getDay = 1\<rparr>,
            getTimezoneOffset := (\<lambda>ymd. 300)\<rparr>"

definition alice :: jsval where
  "alice = JObj [(''userName'', JStr ''alice''), (''event'', JStr ''forged'')]"

section \<open>Properties\<close>

subsection \<open>Auxiliary facts\<close>

lemma http_calls_append [simp]: "http_calls (xs @ ys) = http_calls xs @ http_calls ys"
  by (induction xs rule: http_calls.induct) simp_all

lemma statements_append [simp]: "statements (xs @ ys) = statements xs @ statements ys"
  by (induction xs rule: statements.induct) simp_all

lemma catch_lines_quiet [simp]:
  "http_calls (catch_lines w e) = []" "statements (catch_lines w e) = []"
  by (simp_all add: catch_lines_def split: option.splits)

lemmas deliver_defs =
  executeWebhook_def try_deliver_def send_def record_delivery_def Let_def

lemma executeWebhook_boolean:
  "\<exists>b fx. executeWebhook E webhook data = (Inr (JBool b), fx)"
  by (auto simp: deliver_defs split: sum.splits prod.splits option.splits if_splits)

lemma map_of_update_prop:
  "map_of (update_prop k v ps) k' = (if k' = k then Some v else map_of ps k')"
  by (induction ps) auto

lemma send_fulfilled:
  "axios E req = Inr resp \<Longrightarrow>
   send E w req l =
     (case execute E UpdateLastTriggered [wid w] of
        Some e \<Rightarrow> Inl e | None \<Rightarrow> Inr (JBool True),
      [Http req, ConsoleLog l, Query UpdateLastTriggered [wid w]])"
  by (simp add: send_def record_delivery_def split: option.splits)

lemma send_rejected: "axios E req = Inl e \<Longrightarrow> send E w req l = (Inl e, [Http req])"
  by (simp add: send_def)

lemma http_calls_send [simp]: "http_calls (snd (send E w req l)) = [req]"
  by (simp add: send_def record_delivery_def split: sum.splits option.splits)

text \<open>A delivery that made a request went through \<open>send\<close> with it, after console lines only.\<close>

lemma try_deliver_sent:
  assumes "req \<in> set (http_calls (snd (try_deliver E w d)))"
  shows "\<exists>pre l. try_deliver E w d = (fst (send E w req l), pre @ snd (send E w req l))
                 \<and> http_calls pre = [] \<and> statements pre = []"
proof -
  have "\<exists>l. try_deliver E w d = (fst (send E w req l), snd (send E w req l))
           \<or> try_deliver E w d
               = (fst (send E w req l),
                  ConsoleLog ''[WEBHOOK] Webhook Discord detected'' # snd (send E w req l))"
    using assms
    by (auto simp: try_deliver_def case_prod_beta split: sum.splits if_splits)
  then obtain l where
    "try_deliver E w d = (fst (send E w req l), [] @ snd (send E w req l))
     \<or> try_deliver E w d
         = (fst (send E w req l),
            [ConsoleLog ''[WEBHOOK] Webhook Discord detected''] @ snd (send E w req l))"
    by auto
  then show ?thesis
    by (elim disjE) (rule exI, rule exI, rule conjI, assumption, simp)+
qed

lemma catch_lines_first:
  "ConsoleError (''[WEBHOOK] Error triggering webhook '' @ name w @ '':'') (Msg (message e))
     \<in> set (catch_lines w e)"
  by (simp add: catch_lines_def)

lemma deliveries_fulfilled:
  "Promise_all (map fst (map (\<lambda>w. executeWebhook E w d) ws))
     = Inr (map (\<lambda>w. projr (fst (executeWebhook E w d))) ws)"
proof (induction ws)
  case Nil
  show ?case by simp
next
  case (Cons w ws)
  obtain b fx where "executeWebhook E w d = (Inr (JBool b), fx)"
    using executeWebhook_boolean by blast
  with Cons show ?case by simp
qed

lemma triggerEventWebhooks_rows:
  assumes "webhook_rows E SelectByEvent [JStr ''event'', JStr ev] = Inr ws" and "ws \<noteq> []"
  shows "triggerEventWebhooks E ev data =
     (Inr (JBool True),
      [Query SelectByEvent [JStr ''event'', JStr ev],
       ConsoleLog (''[WEBHOOK] Triggering '' @ show_nat (length ws)
                     @ '' webhooks for event: '' @ ev)]
        @ in_rounds (map (\<lambda>w. snd (executeWebhook E w
            (enrichedData (if data = JUndefined then JObj [] else data) ev (now_iso E)))) ws))"
  using assms deliveries_fulfilled [of E _ ws]
  by (simp add: triggerEventWebhooks_def getWebhooksByEventType_def Let_def comp_def)

lemma triggerEventWebhooks_empty:
  assumes "webhook_rows E SelectByEvent [JStr ''event'', JStr ev] = Inr []"
  shows "triggerEventWebhooks E ev data =
     (Inr JUndefined,
      [Query SelectByEvent [JStr ''event'', JStr ev],
       ConsoleLog (''[WEBHOOK] No webhooks registered for event: '' @ ev)])"
  using assms
  by (simp add: triggerEventWebhooks_def getWebhooksByEventType_def Let_def)

lemma triggerEventWebhooks_error:
  assumes "webhook_rows E SelectByEvent [JStr ''event'', JStr ev] = Inl e"
  shows "triggerEventWebhooks E ev data =
     (Inr (JBool False),
      [Query SelectByEvent [JStr ''event'', JStr ev],
       ConsoleError (''[WEBHOOK] Error triggering webhooks for event '' @ ev @ '':'')
         (Thrown e)])"
  using assms
  by (simp add: triggerEventWebhooks_def getWebhooksByEventType_def Let_def)

lemma malformed_not_sent:
  assumes "parse_webhook E w = Inl e"
  shows "fst (executeWebhook E w d) = Inr (JBool False)"
    and "http_calls (snd (executeWebhook E w d)) = []"
    and "statements (snd (executeWebhook E w d)) = []"
  using assms
  by (simp_all add: executeWebhook_def try_deliver_def Let_def split: sum.splits)

lemma delivered_true:
  assumes sent: "req \<in> set (http_calls (snd (executeWebhook E w data)))"
    and ok: "axios E req = Inr resp"
    and up: "execute E UpdateLastTriggered [wid w] = None"
  shows "fst (executeWebhook E w data) = Inr (JBool True)"
proof -
  define d where "d = (if data = JUndefined then JObj [] else data)"
  have "req \<in> set (http_calls (snd (try_deliver E w d)))"
    using sent
    by (auto simp: executeWebhook_def d_def Let_def case_prod_beta split: sum.splits)
  from try_deliver_sent [OF this] obtain pre l where
    t: "try_deliver E w d = (fst (send E w req l), pre @ snd (send E w req l))"
    by blast
  have "fst (send E w req l) = Inr (JBool True)"
    using send_fulfilled [OF ok, of w l] up by simp
  with t show ?thesis
    by (simp add: executeWebhook_def d_def [symmetric])
qed

lemma http_calls_concat:
  "http_calls (concat (map f ws)) = concat (map (\<lambda>w. http_calls (f w)) ws)"
  by (induction ws) simp_all

text \<open>
  The request of a delivery is its first \<^verbatim>\<open>await\<close>: nothing is handed to axios after it.
  So the requests of a dispatch are those of its deliveries, in the order of the list.
\<close>

lemma until_after_await: "until_await fx @ after_await fx = fx"
  by (induction fx) simp_all

lemma http_calls_until_await:
  "http_calls (after_await fx) = [] \<Longrightarrow> http_calls (until_await fx) = http_calls fx"
  using until_after_await [of fx] http_calls_append [of "until_await fx" "after_await fx"]
  by simp

lemma after_await_send:
  "http_calls (after_await (snd (send E w req l) @ fx)) = http_calls fx"
  by (simp add: send_def record_delivery_def split: sum.splits option.splits)

lemma after_await_catch_lines [simp]: "after_await (catch_lines w e) = []"
  by (simp add: catch_lines_def split: option.splits)

lemma no_request_after_await:
  "http_calls (after_await (snd (executeWebhook E w d))) = []"
proof -
  define d' where "d' = (if d = JUndefined then JObj [] else d)"
  have t: "snd (try_deliver E w d') = []
      \<or> (\<exists>e. snd (try_deliver E w d') = [ConsoleError ''[WEBHOOK] Error while parsing:'' (Thrown e)])
      \<or> (\<exists>req l. snd (try_deliver E w d') = snd (send E w req l))
      \<or> (\<exists>req l. snd (try_deliver E w d')
            = ConsoleLog ''[WEBHOOK] Webhook Discord detected'' # snd (send E w req l))"
    by (auto simp: try_deliver_def case_prod_beta split: sum.splits)
  have e: "snd (executeWebhook E w d) = snd (try_deliver E w d')
      \<or> (\<exists>e. snd (executeWebhook E w d) = snd (try_deliver E w d') @ catch_lines w e)"
    by (auto simp: executeWebhook_def d'_def Let_def split: sum.splits prod.splits)
  have a: "http_calls (after_await (snd (try_deliver E w d') @ fx)) = http_calls fx
      \<or> http_calls (after_await (snd (try_deliver E w d') @ fx)) = http_calls (after_await fx)"
    for fx
    using t after_await_send [of E w _ _ fx] by auto
  from e show ?thesis
  proof
    assume "snd (executeWebhook E w d) = snd (try_deliver E w d')"
    with a [of "[]"] show ?thesis by auto
  next
    assume "\<exists>e. snd (executeWebhook E w d) = snd (try_deliver E w d') @ catch_lines w e"
    then obtain e where "snd (executeWebhook E w d) = snd (try_deliver E w d') @ catch_lines w e"
      by blast
    with a [of "catch_lines w e"] show ?thesis by auto
  qed
qed

lemma http_calls_in_rounds:
  assumes "\<forall>fx \<in> set traces. http_calls (after_await fx) = []"
  shows "http_calls (in_rounds traces) = concat (map http_calls traces)"
proof -
  have 1: "http_calls (concat (map until_await traces)) = concat (map http_calls traces)"
    using assms by (induction traces) (simp_all add: http_calls_until_await)
  have 2: "http_calls (concat (map (\<lambda>fx. until_await (after_await fx)) traces)) = []"
    using assms
  proof (induction traces)
    case Nil
    show ?case by simp
  next
    case (Cons fx traces)
    have "http_calls (until_await (after_await fx)) @ http_calls (after_await (after_await fx)) = []"
      using Cons.prems until_after_await [of "after_await fx"]
        http_calls_append [of "until_await (after_await fx)" "after_await (after_await fx)"]
      by simp
    with Cons show ?case by simp
  qed
  have 3: "http_calls (concat (map (\<lambda>fx. after_await (after_await fx)) traces)) = []"
    using assms
  proof (induction traces)
    case Nil
    show ?case by simp
  next
    case (Cons fx traces)
    have "http_calls (until_await (after_await fx)) @ http_calls (after_await (after_await fx)) = []"
      using Cons.prems until_after_await [of "after_await fx"]
        http_calls_append [of "until_await (after_await fx)" "after_await (after_await fx)"]
      by simp
    with Cons show ?case by simp
  qed
  show ?thesis
    by (simp add: in_rounds_def 1 2 3)
qed

lemma http_calls_dispatch:
  "http_calls (in_rounds (map (\<lambda>w. snd (executeWebhook E w d)) ws))
     = concat (map (\<lambda>w. http_calls (snd (executeWebhook E w d))) ws)"
  by (simp add: http_calls_in_rounds no_request_after_await comp_def)

lemma days_in_month_pos: "28 \<le> days_in_month y m"
  by (simp add: days_in_month_def)

lemma carry_day_in_range:
  "1 \<le> d \<Longrightarrow> d \<le> days_in_month y m \<Longrightarrow> carry_day y m d = (y, m, d)"
  by (subst carry_day.simps) simp

lemma carry_day_zero:
  "carry_day y m 0 =
     (case prev_month y m of (y', m') \<Rightarrow> (y', m', days_in_month y' m'))"
proof -
  obtain y' m' where p: "prev_month y m = (y', m')"
    by (cases "prev_month y m")
  have "carry_day y' m' (days_in_month y' m') = (y', m', days_in_month y' m')"
    using days_in_month_pos [of y' m'] by (intro carry_day_in_range) simp_all
  with p show ?thesis
    by (subst carry_day.simps) simp
qed

lemma new_Date_previous_first:
  assumes "100 \<le> y" and "0 \<le> m" and "m \<le> 11" and "prev_month y m = (y', m')"
  shows "new_Date y (m - 1) 1 = (y', m', 1)"
proof -
  have "(y + (m - 1) div 12, (m - 1) mod 12) = (y', m')"
    using assms by (auto simp: prev_month_def split: if_splits)
  then show ?thesis
    using assms(1) days_in_month_pos [of y' m'] by (simp add: new_Date_def carry_day_in_range)
qed

lemma prev_month_range:
  assumes "0 \<le> m" and "m \<le> 11" and "prev_month y m = (y', m')"
  shows "0 \<le> m'" and "m' \<le> 11" and "y - 1 \<le> y'"
  using assms by (auto simp: prev_month_def split: if_splits)

lemma new_Date_first:
  assumes "100 \<le> y" and "0 \<le> m" and "m \<le> 11"
  shows "new_Date y m 1 = (y, m, 1)"
  using assms days_in_month_pos [of y m] by (simp add: new_Date_def carry_day_in_range)

lemma new_Date_last:
  assumes "100 \<le> y" and "0 \<le> m" and "m \<le> 11"
  shows "new_Date y (m + 1) 0 = (y, m, days_in_month y m)"
proof (cases "m = 11")
  case True
  with assms(1) show ?thesis
    by (simp add: new_Date_def carry_day_zero prev_month_def)
next
  case False
  with assms have "(m + 1) div 12 = 0" "(m + 1) mod 12 = m + 1"
    by simp_all
  with assms show ?thesis
    by (simp add: new_Date_def carry_day_zero prev_month_def)
qed

lemma iso_date_same_day:
  assumes "0 \<le> getTimezoneOffset E (y, m, d)" and "getTimezoneOffset E (y, m, d) < 1440"
    and "1 \<le> d" and "d \<le> days_in_month y m"
  shows "iso_date E (y, m, d) = iso_text (y, m, d)"
  using assms by (simp add: iso_date_def carry_day_in_range)

lemma sound_sibling_sends:
  assumes u: "url w = JStr u" and p: "parse_webhook E w = Inr (h, p)"
    and c: "contains u discord_marker \<or> (\<exists>c. compileTemplate (builtin E) p d = Inr c)"
    and d: "d \<noteq> JUndefined"
  shows "\<exists>req. http_calls (snd (executeWebhook E w d)) = [req] \<and> req_url req = url w"
proof (cases "contains u discord_marker")
  case True
  with u p d have "http_calls (snd (executeWebhook E w d)) = [discord_request w p]"
    by (simp add: executeWebhook_def try_deliver_def Let_def case_prod_beta split: sum.splits)
  then show ?thesis
    by (simp add: discord_request_def)
next
  case False
  with c obtain c' where "compileTemplate (builtin E) p d = Inr c'"
    by blast
  with False u p d have "http_calls (snd (executeWebhook E w d)) = [generic_request w h c']"
    by (simp add: executeWebhook_def try_deliver_def Let_def case_prod_beta split: sum.splits)
  then show ?thesis
    by (simp add: generic_request_def)
qed

lemma enrichedData_defined: "enrichedData data ev ts \<noteq> JUndefined"
  by (simp add: enrichedData_def)

lemma show_nat_small: "show_nat 0 = ''0''" "show_nat (Suc 0) = ''1''"
  by code_simp+

text \<open>The scenarios, run.\<close>

lemma env_ok_rows: "webhook_rows env_ok q ps = Inr []"
  by (simp add: env_ok_def)

lemma env_ok_axios: "axios env_ok req = Inr (Response 204 (JStr []))"
  by (simp add: env_ok_def)

lemma env_500_axios:
  "axios env_500 req
     = Inl (AxiosError ''Request failed with status code 500'' (Some (Response 500 JNull)))"
  by (simp add: env_500_def)

lemma env_db_down_axios: "axios env_db_down req = Inr (Response 204 (JStr []))"
  by (simp add: env_db_down_def env_ok_def)

lemma env_db_down_execute: "execute env_db_down q ps = Some (DbError ''Connection terminated'')"
  by (simp add: env_db_down_def)

lemma run_hook_ok:
  "executeWebhook env_ok hook alice =
     (Inr (JBool True),
      [Http \<lparr>req_method = JStr ''POST'', req_url = JStr ''https://example.org/hook'',
             req_headers = JObj [], req_data = JObj [(''user'', JStr ''alice'')],
             req_timeout = 10000\<rparr>,
       ConsoleLog ''[WEBHOOK] Webhook ops send successfully'',
       Query UpdateLastTriggered [JNum 7]])"
  by code_simp

lemma run_hook_500:
  "executeWebhook env_500 hook alice =
     (Inr (JBool False),
      [Http \<lparr>req_method = JStr ''POST'', req_url = JStr ''https://example.org/hook'',
             req_headers = JObj [], req_data = JObj [(''user'', JStr ''alice'')],
             req_timeout = 10000\<rparr>,
       ConsoleError ''[WEBHOOK] Error triggering webhook ops:''
         (Msg ''Request failed with status code 500''),
       ConsoleError ''[WEBHOOK] Response status: 500'' NoDetail,
       ConsoleError ''[WEBHOOK] Response data:'' (Data JNull)])"
  by code_simp

lemma run_hook_db_down:
  "executeWebhook env_db_down hook alice =
     (Inr (JBool False),
      [Http \<lparr>req_method = JStr ''POST'', req_url = JStr ''https://example.org/hook'',
             req_headers = JObj [], req_data = JObj [(''user'', JStr ''alice'')],
             req_timeout = 10000\<rparr>,
       ConsoleLog ''[WEBHOOK] Webhook ops send successfully'',
       Query UpdateLastTriggered [JNum 7],
       ConsoleError ''[WEBHOOK] Error triggering webhook ops:''
         (Msg ''Connection terminated'')])"
  by code_simp

text \<open>A dispatch to three webhooks: both requests are made before either delivery goes on.\<close>

lemma run_three_trace:
  "triggerEventWebhooks env_three ''playback_started'' alice =
     (Inr (JBool True),
      [Query SelectByEvent [JStr ''event'', JStr ''playback_started''],
       ConsoleLog ''[WEBHOOK] Triggering 3 webhooks for event: playback_started'',
       Http \<lparr>req_method = JStr ''POST'', req_url = JStr ''https://example.org/hook'',
             req_headers = JObj [], req_data = JObj [(''user'', JStr ''alice'')],
             req_timeout = 10000\<rparr>,
       ConsoleError ''[WEBHOOK] Error while parsing:''
         (Thrown (SyntaxError ''Unexpected token in JSON'')),
       ConsoleLog ''[WEBHOOK] Webhook Discord detected'',
       Http \<lparr>req_method = JStr ''POST'',
             req_url = JStr ''https://discord.com/api/webhooks/1/abc'',
             req_headers = JObj [(''Content-Type'', JStr ''application/json'')],
             req_data = JObj [(''content'', JStr ''hi {{userName}}'')],
             req_timeout = 10000\<rparr>,
       ConsoleLog ''[WEBHOOK] Webhook ops send successfully'',
       Query UpdateLastTriggered [JNum 7],
       ConsoleLog ''[WEBHOOK] Discord webhook chat send successfully'',
       Query UpdateLastTriggered [JNum 9]])"
  by code_simp

lemma run_three:
  "http_calls (snd (triggerEventWebhooks env_three ''playback_started'' alice)) =
     [\<lparr>req_method = JStr ''POST'', req_url = JStr ''https://example.org/hook'',
       req_headers = JObj [], req_data = JObj [(''user'', JStr ''alice'')],
       req_timeout = 10000\<rparr>,
      \<lparr>req_method = JStr ''POST'', req_url = JStr ''https://discord.com/api/webhooks/1/abc'',
       req_headers = JObj [(''Content-Type'', JStr ''application/json'')],
       req_data = JObj [(''content'', JStr ''hi {{userName}}'')],
       req_timeout = 10000\<rparr>]"
  by code_simp

lemma env_three_parse:
  "parse_webhook env_three broken_hook = Inl (SyntaxError ''Unexpected token in JSON'')"
  "parse_webhook env_three hook = Inr (JObj [], JObj [(''user'', JStr ''{{userName}}'')])"
  "parse_webhook env_three chat_hook
     = Inr (JObj [(''X-Token'', JStr ''s3cret'')], JObj [(''content'', JStr ''hi {{userName}}'')])"
  by code_simp+

lemma env_three_compile:
  "compileTemplate (builtin env_three) (JObj [(''user'', JStr ''{{userName}}'')])
     (enrichedData alice ''playback_started'' (now_iso env_three))
     = Inr (JObj [(''user'', JStr ''alice'')])"
  by code_simp

lemma chat_hook_marked: "contains ''https://discord.com/api/webhooks/1/abc'' discord_marker"
  by code_simp

lemma env_four_db_down_axios: "axios env_four_db_down req = Inr (Response 204 (JStr []))"
  by (simp add: env_four_db_down_def env_ok_def)

lemma run_four_db_down:
  "http_calls (snd (triggerEventWebhooks env_four_db_down ''playback_started'' alice)) =
     [\<lparr>req_method = JStr ''POST'', req_url = JStr ''https://example.org/hook'',
       req_headers = JObj [], req_data = JObj [(''user'', JStr ''alice'')],
       req_timeout = 10000\<rparr>]"
  by code_simp

lemma run_sibling_db_down:
  "fst (executeWebhook env_four_db_down hook
       (enrichedData alice ''playback_started'' (now_iso env_four_db_down)))
     = Inr (JBool False)"
  by code_simp

lemma env_four_parse:
  "parse_webhook env_four_db_down broken_hook = Inl (SyntaxError ''Unexpected token in JSON'')"
  "parse_webhook env_four_db_down no_url_hook
     = Inr (JObj [], JObj [(''user'', JStr ''{{userName}}'')])"
  "parse_webhook env_four_db_down null_hook = Inr (JObj [], JObj [(''note'', JNull)])"
  "parse_webhook env_four_db_down hook = Inr (JObj [], JObj [(''user'', JStr ''{{userName}}'')])"
  by code_simp+

lemma run_digest_paris:
  "statements (snd (getMonthlySummaryData env_paris)) =
     [(TopMovies, [JStr ''2024-01-31'', JNum 5]),
      (TopSeries, [JStr ''2024-01-31'', JNum 5]),
      (Stats, [JStr ''2024-02-29'', JStr ''2024-03-30''])]"
  by code_simp

subsection \<open>Recording the delivery time\<close>

text \<open>
  Claim C1 says that \<^verbatim>\<open>last_triggered\<close> is recorded if and only if the HTTP call
  returns a response, whatever its status, 2xx or not. It fails where the remote end
  answers 500: axios rejects the promise with an error that carries the response (the
  case the \<^verbatim>\<open>catch\<close> block prints under \<^verbatim>\<open>error.response\<close>), the request was made and
  answered, and no update is issued.
\<close>

theorem answer_500_not_recorded:
  "axios env_500
     \<lparr>req_method = JStr ''POST'', req_url = JStr ''https://example.org/hook'',
      req_headers = JObj [], req_data = JObj [(''user'', JStr ''alice'')],
      req_timeout = 10000\<rparr>
     = Inl (AxiosError ''Request failed with status code 500'' (Some (Response 500 JNull)))
   \<and> http_calls (snd (executeWebhook env_500 hook alice))
     = [\<lparr>req_method = JStr ''POST'', req_url = JStr ''https://example.org/hook'',
         req_headers = JObj [], req_data = JObj [(''user'', JStr ''alice'')],
         req_timeout = 10000\<rparr>]
   \<and> statements (snd (executeWebhook env_500 hook alice)) = []
   \<and> fst (executeWebhook env_500 hook alice) = Inr (JBool False)"
  by (simp add: run_hook_500 env_500_axios)

text \<open>
  Claim C1, amended: the update of \<^verbatim>\<open>last_triggered\<close> for the webhook is issued if and
  only if \<^verbatim>\<open>executeWebhook\<close> made its HTTP request and the promise of axios was
  fulfilled, whatever response fulfilled it; a rejected promise, with or without a
  response, never leads to the update. A delivery makes at most one request.
\<close>

theorem last_triggered_iff_fulfilled:
  "((UpdateLastTriggered, [wid webhook])
      \<in> set (statements (snd (executeWebhook E webhook data))))
     = (\<exists>req resp. req \<in> set (http_calls (snd (executeWebhook E webhook data)))
                    \<and> axios E req = Inr resp)
   \<and> length (http_calls (snd (executeWebhook E webhook data))) \<le> 1"
  by (auto simp: deliver_defs split: sum.splits prod.splits option.splits if_splits)

text \<open>
  Claim C1, amended, on the two scenarios: the answer 204 is recorded for webhook 7,
  the answer 500 is not.
\<close>

theorem last_triggered_iff_fulfilled_witness:
  "(UpdateLastTriggered, [JNum 7]) \<in> set (statements (snd (executeWebhook env_ok hook alice)))
   \<and> (UpdateLastTriggered, [JNum 7]) \<notin> set (statements (snd (executeWebhook env_500 hook alice)))"
proof -
  have ok: "\<exists>req resp. req \<in> set (http_calls (snd (executeWebhook env_ok hook alice)))
                       \<and> axios env_ok req = Inr resp"
    by (simp add: run_hook_ok env_ok_axios)
  have ko: "\<not> (\<exists>req resp. req \<in> set (http_calls (snd (executeWebhook env_500 hook alice)))
                       \<and> axios env_500 req = Inr resp)"
    by (simp add: run_hook_500 env_500_axios)
  have id: "wid hook = JNum 7"
    by (simp add: hook_def)
  from ok ko id show ?thesis
    using last_triggered_iff_fulfilled [of hook env_ok alice]
      last_triggered_iff_fulfilled [of hook env_500 alice]
    by simp
qed

text \<open>
  Claim C2 says that a failure of the update of \<^verbatim>\<open>last_triggered\<close> is swallowed and
  the delivery is still reported as successful. It fails where the request is answered
  and the database rejects the update: the rejection reaches the outer \<^verbatim>\<open>catch\<close>, and
  \<^verbatim>\<open>executeWebhook\<close> returns \<^verbatim>\<open>false\<close>.
\<close>

theorem update_failure_fails_delivery:
  "axios env_db_down
     \<lparr>req_method = JStr ''POST'', req_url = JStr ''https://example.org/hook'',
      req_headers = JObj [], req_data = JObj [(''user'', JStr ''alice'')],
      req_timeout = 10000\<rparr>
     = Inr (Response 204 (JStr []))
   \<and> executeWebhook env_db_down hook alice =
     (Inr (JBool False),
      [Http \<lparr>req_method = JStr ''POST'', req_url = JStr ''https://example.org/hook'',
             req_headers = JObj [], req_data = JObj [(''user'', JStr ''alice'')],
             req_timeout = 10000\<rparr>,
       ConsoleLog ''[WEBHOOK] Webhook ops send successfully'',
       Query UpdateLastTriggered [JNum 7],
       ConsoleError ''[WEBHOOK] Error triggering webhook ops:''
         (Msg ''Connection terminated'')])"
  by (simp only: run_hook_db_down env_db_down_axios simp_thms)

text \<open>
  Claim C2, amended: when the HTTP request of a delivery was fulfilled and the update
  of \<^verbatim>\<open>last_triggered\<close> is rejected, the rejection is caught inside \<^verbatim>\<open>executeWebhook\<close>
  and logged with the message of the error, and the delivery is reported as failed:
  the result is \<^verbatim>\<open>false\<close>, after exactly that one request and that one statement.
\<close>

theorem update_failure_logged_and_false:
  assumes sent: "req \<in> set (http_calls (snd (executeWebhook E webhook data)))"
    and ok: "axios E req = Inr resp"
    and down: "execute E UpdateLastTriggered [wid webhook] = Some e"
  shows "fst (executeWebhook E webhook data) = Inr (JBool False)
       \<and> ConsoleError (''[WEBHOOK] Error triggering webhook '' @ name webhook @ '':'')
            (Msg (message e)) \<in> set (snd (executeWebhook E webhook data))
       \<and> http_calls (snd (executeWebhook E webhook data)) = [req]
       \<and> statements (snd (executeWebhook E webhook data))
           = [(UpdateLastTriggered, [wid webhook])]"
proof -
  define d where "d = (if data = JUndefined then JObj [] else data)"
  have "req \<in> set (http_calls (snd (try_deliver E webhook d)))"
    using sent
    by (auto simp: executeWebhook_def d_def Let_def case_prod_beta split: sum.splits)
  from try_deliver_sent [OF this] obtain pre l where
    t: "try_deliver E webhook d = (fst (send E webhook req l), pre @ snd (send E webhook req l))"
    and pre: "http_calls pre = []" "statements pre = []"
    by blast
  have s: "send E webhook req l =
     (Inl e, [Http req, ConsoleLog l, Query UpdateLastTriggered [wid webhook]])"
    using send_fulfilled [OF ok, of webhook l] down by simp
  have "executeWebhook E webhook data =
     (Inr (JBool False),
      pre @ [Http req, ConsoleLog l, Query UpdateLastTriggered [wid webhook]]
        @ catch_lines webhook e)"
    using t s by (simp add: executeWebhook_def d_def [symmetric])
  then show ?thesis
    using pre catch_lines_first [of webhook e] by simp
qed

text \<open>Claim C2, amended, on the scenario of the database that rejects updates.\<close>

theorem update_failure_logged_and_false_witness:
  "execute env_db_down UpdateLastTriggered [wid hook] = Some (DbError ''Connection terminated'')
   \<and> fst (executeWebhook env_db_down hook alice) = Inr (JBool False)
   \<and> ConsoleError (''[WEBHOOK] Error triggering webhook '' @ name hook @ '':'')
         (Msg ''Connection terminated'')
       \<in> set (snd (executeWebhook env_db_down hook alice))"
proof -
  let ?req = "\<lparr>req_method = JStr ''POST'', req_url = JStr ''https://example.org/hook'',
      req_headers = JObj [], req_data = JObj [(''user'', JStr ''alice'')],
      req_timeout = 10000\<rparr>"
  have 1: "?req \<in> set (http_calls (snd (executeWebhook env_db_down hook alice)))"
    by (simp add: run_hook_db_down)
  have 2: "axios env_db_down ?req = Inr (Response 204 (JStr []))"
    by (rule env_db_down_axios)
  have 3: "execute env_db_down UpdateLastTriggered [wid hook]
             = Some (DbError ''Connection terminated'')"
    by (rule env_db_down_execute)
  from update_failure_logged_and_false [OF 1 2 3] 3 show ?thesis
    by simp
qed

subsection \<open>Dispatch\<close>

text \<open>
  Claim C6 says that with no matching webhook \<^verbatim>\<open>triggerEventWebhooks\<close> returns the
  boolean \<^verbatim>\<open>true\<close> and makes no HTTP call. The first half fails: the empty case ends
  in a bare \<^verbatim>\<open>return;\<close>, and the result is \<open>undefined\<close>.
\<close>

theorem no_webhook_returns_undefined:
  "webhook_rows env_ok SelectByEvent [JStr ''event'', JStr ''playback_started''] = Inr []
   \<and> triggerEventWebhooks env_ok ''playback_started'' alice =
       (Inr JUndefined,
        [Query SelectByEvent [JStr ''event'', JStr ''playback_started''],
         ConsoleLog ''[WEBHOOK] No webhooks registered for event: playback_started''])
   \<and> fst (triggerEventWebhooks env_ok ''playback_started'' alice) \<noteq> Inr (JBool True)"
  by (simp add: triggerEventWebhooks_empty [OF env_ok_rows] env_ok_rows)

text \<open>
  Claim C6, amended: when the registry returns no webhook for the event type,
  \<^verbatim>\<open>triggerEventWebhooks\<close> returns \<open>undefined\<close> without throwing, after the lookup and
  one console line: it makes no HTTP call and issues no update.
\<close>

theorem no_webhook_no_call:
  assumes "webhook_rows E SelectByEvent [JStr ''event'', JStr eventType] = Inr []"
  shows "triggerEventWebhooks E eventType data =
           (Inr JUndefined,
            [Query SelectByEvent [JStr ''event'', JStr eventType],
             ConsoleLog (''[WEBHOOK] No webhooks registered for event: '' @ eventType)])
       \<and> http_calls (snd (triggerEventWebhooks E eventType data)) = []"
  by (simp add: triggerEventWebhooks_empty [OF assms])

text \<open>Claim C6, amended, on the registry without webhooks.\<close>

theorem no_webhook_no_call_witness:
  "webhook_rows env_ok SelectByEvent [JStr ''event'', JStr ''media_recently_added''] = Inr []
   \<and> fst (triggerEventWebhooks env_ok ''media_recently_added'' JUndefined) = Inr JUndefined
   \<and> http_calls (snd (triggerEventWebhooks env_ok ''media_recently_added'' JUndefined)) = []"
proof -
  have rows: "webhook_rows env_ok SelectByEvent [JStr ''event'', JStr ''media_recently_added'']
                = Inr []"
    by (rule env_ok_rows)
  from no_webhook_no_call [OF rows, of JUndefined] rows show ?thesis
    by simp
qed

text \<open>
  Claim C9: \<^verbatim>\<open>executeWebhook\<close> never throws. For every webhook row, whatever its url,
  headers and payload are, and every data tree, it returns a boolean. So the promises
  joined by \<^verbatim>\<open>Promise.all\<close> in \<^verbatim>\<open>triggerEventWebhooks\<close> are all fulfilled, the join
  yields one value for each webhook, and the result of the dispatch depends on the
  lookup alone.
\<close>

theorem executeWebhook_never_throws:
  "(\<exists>b fx. executeWebhook E webhook data = (Inr (JBool b), fx))
   \<and> (\<exists>vs. Promise_all (map fst (map (\<lambda>w. executeWebhook E w data) webhooks)) = Inr vs
            \<and> length vs = length webhooks)
   \<and> fst (triggerEventWebhooks E eventType data) =
       (case webhook_rows E SelectByEvent [JStr ''event'', JStr eventType] of
          Inl e \<Rightarrow> Inr (JBool False)
        | Inr ws \<Rightarrow> if ws = [] then Inr JUndefined else Inr (JBool True))"
proof (intro conjI)
  show "\<exists>b fx. executeWebhook E webhook data = (Inr (JBool b), fx)"
    by (rule executeWebhook_boolean)
  show "\<exists>vs. Promise_all (map fst (map (\<lambda>w. executeWebhook E w data) webhooks)) = Inr vs
            \<and> length vs = length webhooks"
    unfolding deliveries_fulfilled by simp
  show "fst (triggerEventWebhooks E eventType data) =
       (case webhook_rows E SelectByEvent [JStr ''event'', JStr eventType] of
          Inl e \<Rightarrow> Inr (JBool False)
        | Inr ws \<Rightarrow> if ws = [] then Inr JUndefined else Inr (JBool True))"
  proof (cases "webhook_rows E SelectByEvent [JStr ''event'', JStr eventType]")
    case (Inl e)
    then show ?thesis by (simp add: triggerEventWebhooks_error)
  next
    case (Inr ws)
    then show ?thesis
      by (cases "ws = []") (simp_all add: triggerEventWebhooks_empty triggerEventWebhooks_rows)
  qed
qed

text \<open>
  Claim C9 on a row without url and with a payload that is not JSON, and on a
  dispatch to two webhooks of which the first is malformed.
\<close>

theorem executeWebhook_never_throws_witness:
  "fst (executeWebhook env_ok (hook\<lparr>url := JUndefined, payload := JStr ''{oops''\<rparr>) JNull)
     = Inr (JBool False)
   \<and> fst (triggerEventWebhooks env_two ''playback_started'' alice) = Inr (JBool True)"
proof -
  have "fst (executeWebhook env_ok (hook\<lparr>url := JUndefined, payload := JStr ''{oops''\<rparr>) JNull)
          = Inr (JBool False)"
    by code_simp
  moreover have "webhook_rows env_two SelectByEvent [JStr ''event'', JStr ''playback_started'']
                   = Inr [broken_hook, hook]"
    by (simp add: env_two_def)
  ultimately show ?thesis
    using executeWebhook_never_throws [of env_two hook alice "[]" "''playback_started''"]
    by simp
qed

text \<open>
  Claim C10: the data tree given to the deliveries is the producer's tree with
  \<^verbatim>\<open>event\<close> bound to the event name and \<^verbatim>\<open>triggeredAt\<close> bound to the time of the
  dispatch, whatever the producer had put under these two keys; every other top-level
  key keeps the producer's value. The deliveries of a dispatch receive exactly this
  tree: the effects of the dispatch are those of the deliveries run on it, in rounds.
\<close>

theorem enrichment_overrides:
  "own (enrichedData (JObj kvs) eventType triggeredAt) ''event'' = Some (JStr eventType)
   \<and> own (enrichedData (JObj kvs) eventType triggeredAt) ''triggeredAt'' = Some (JStr triggeredAt)
   \<and> (\<forall>key. key \<noteq> ''event'' \<and> key \<noteq> ''triggeredAt'' \<longrightarrow>
          own (enrichedData (JObj kvs) eventType triggeredAt) key = map_of kvs key)
   \<and> (\<forall>ws. webhook_rows E SelectByEvent [JStr ''event'', JStr eventType] = Inr ws \<and> ws \<noteq> [] \<longrightarrow>
          snd (triggerEventWebhooks E eventType (JObj kvs)) =
            [Query SelectByEvent [JStr ''event'', JStr eventType],
             ConsoleLog (''[WEBHOOK] Triggering '' @ show_nat (length ws)
                           @ '' webhooks for event: '' @ eventType)]
            @ in_rounds (map (\<lambda>w. snd (executeWebhook E w
                              (enrichedData (JObj kvs) eventType (now_iso E)))) ws))"
  by (simp add: enrichedData_def map_of_update_prop triggerEventWebhooks_rows)

text \<open>
  Claim C10 on a producer that had forged the key \<^verbatim>\<open>event\<close>: the forged value is
  replaced, the user name is kept.
\<close>

theorem enrichment_overrides_witness:
  "enrichedData alice ''playback_started'' ''2024-03-31T08:30:00.000Z''
     = JObj [(''userName'', JStr ''alice''), (''event'', JStr ''playback_started''),
             (''triggeredAt'', JStr ''2024-03-31T08:30:00.000Z'')]
   \<and> own (enrichedData alice ''playback_started'' ''2024-03-31T08:30:00.000Z'') ''event''
       = Some (JStr ''playback_started'')
   \<and> own (enrichedData alice ''playback_started'' ''2024-03-31T08:30:00.000Z'') ''userName''
       = Some (JStr ''alice'')"
proof -
  have a: "alice = JObj [(''userName'', JStr ''alice''), (''event'', JStr ''forged'')]"
    by (simp add: alice_def)
  have "enrichedData alice ''playback_started'' ''2024-03-31T08:30:00.000Z''
     = JObj [(''userName'', JStr ''alice''), (''event'', JStr ''playback_started''),
             (''triggeredAt'', JStr ''2024-03-31T08:30:00.000Z'')]"
    by code_simp
  moreover have "''userName'' \<noteq> ''event'' \<and> ''userName'' \<noteq> ''triggeredAt''"
    by simp
  ultimately show ?thesis
    using enrichment_overrides [of "[(''userName'', JStr ''alice''), (''event'', JStr ''forged'')]"
        "''playback_started''" "''2024-03-31T08:30:00.000Z''" env_ok]
    unfolding a by simp
qed

subsection \<open>The chat path\<close>

text \<open>
  Claim C8: for a webhook whose url contains the marker
  \<^verbatim>\<open>discord.com/api/webhooks\<close> and whose headers and payload parse, the one request
  made carries the parsed payload as it is, whatever the event data are, the single
  header \<^verbatim>\<open>Content-Type: application/json\<close> in place of the declared headers, and the
  declared method, or \<^verbatim>\<open>POST\<close> when none is declared.
\<close>

theorem chat_payload_verbatim:
  assumes "url webhook = JStr u" and "contains u discord_marker"
    and "parse_field E (headers webhook) = Inr h"
    and "parse_field E (payload webhook) = Inr p"
  shows "http_calls (snd (executeWebhook E webhook data)) =
           [\<lparr>req_method = (if truthy (wmethod webhook) then wmethod webhook else JStr ''POST''),
             req_url = JStr u,
             req_headers = JObj [(''Content-Type'', JStr ''application/json'')],
             req_data = p,
             req_timeout = 10000\<rparr>]"
  using assms
  by (simp add: executeWebhook_def try_deliver_def parse_webhook_def discord_request_def
      or_else_def Let_def case_prod_beta split: sum.splits)

text \<open>
  Claim C8 on a chat webhook that declares a header and whose payload holds a
  placeholder: the header is not sent, the placeholder is not replaced.
\<close>

theorem chat_payload_verbatim_witness:
  "contains ''https://discord.com/api/webhooks/1/abc'' discord_marker
   \<and> parse_field env_ok (headers chat_hook) = Inr (JObj [(''X-Token'', JStr ''s3cret'')])
   \<and> parse_field env_ok (payload chat_hook) = Inr (JObj [(''content'', JStr ''hi {{userName}}'')])
   \<and> http_calls (snd (executeWebhook env_ok chat_hook alice)) =
           [\<lparr>req_method = JStr ''POST'',
             req_url = JStr ''https://discord.com/api/webhooks/1/abc'',
             req_headers = JObj [(''Content-Type'', JStr ''application/json'')],
             req_data = JObj [(''content'', JStr ''hi {{userName}}'')],
             req_timeout = 10000\<rparr>]"
proof -
  have 1: "url chat_hook = JStr ''https://discord.com/api/webhooks/1/abc''"
    by (simp add: chat_hook_def)
  have 2: "contains ''https://discord.com/api/webhooks/1/abc'' discord_marker"
    by code_simp
  have 3: "parse_field env_ok (headers chat_hook) = Inr (JObj [(''X-Token'', JStr ''s3cret'')])"
    by (simp add: chat_hook_def or_else_def)
  have 4: "parse_field env_ok (payload chat_hook)
             = Inr (JObj [(''content'', JStr ''hi {{userName}}'')])"
    by (simp add: chat_hook_def or_else_def)
  have 5: "wmethod chat_hook = JUndefined"
    by (simp add: chat_hook_def)
  from chat_payload_verbatim [OF 1 2 3 4, of alice] 2 3 4 5 show ?thesis
    by simp
qed

subsection \<open>Isolation of a malformed webhook\<close>

text \<open>
  Claim C7 says that next to one webhook with malformed JSON the other webhooks are
  still delivered, and that each reports success when its HTTP call completes. Take
  four webhooks of which the first is malformed. Two of the three others are not
  delivered, though their JSON is well-formed: one has no url, the payload of the other
  holds a \<open>null\<close>, on which the template compiler throws. The last one is delivered and
  answered, and reports failure, because the database rejects the update of
  \<^verbatim>\<open>last_triggered\<close>.
\<close>

theorem siblings_fail_or_stay_unsent:
  "webhook_rows env_four_db_down SelectByEvent [JStr ''event'', JStr ''playback_started'']
     = Inr [broken_hook, no_url_hook, null_hook, hook]
   \<and> parse_webhook env_four_db_down broken_hook = Inl (SyntaxError ''Unexpected token in JSON'')
   \<and> parse_webhook env_four_db_down no_url_hook
       = Inr (JObj [], JObj [(''user'', JStr ''{{userName}}'')])
   \<and> parse_webhook env_four_db_down null_hook = Inr (JObj [], JObj [(''note'', JNull)])
   \<and> parse_webhook env_four_db_down hook
       = Inr (JObj [], JObj [(''user'', JStr ''{{userName}}'')])
   \<and> http_calls (snd (triggerEventWebhooks env_four_db_down ''playback_started'' alice))
       = [\<lparr>req_method = JStr ''POST'', req_url = JStr ''https://example.org/hook'',
           req_headers = JObj [], req_data = JObj [(''user'', JStr ''alice'')],
           req_timeout = 10000\<rparr>]
   \<and> axios env_four_db_down
         \<lparr>req_method = JStr ''POST'', req_url = JStr ''https://example.org/hook'',
          req_headers = JObj [], req_data = JObj [(''user'', JStr ''alice'')],
          req_timeout = 10000\<rparr>
       = Inr (Response 204 (JStr []))
   \<and> fst (executeWebhook env_four_db_down hook
            (enrichedData alice ''playback_started'' (now_iso env_four_db_down)))
       = Inr (JBool False)"
proof (intro conjI)
  show "webhook_rows env_four_db_down SelectByEvent [JStr ''event'', JStr ''playback_started'']
     = Inr [broken_hook, no_url_hook, null_hook, hook]"
    by (simp add: env_four_db_down_def)
qed (simp_all only: env_four_parse run_four_db_down run_sibling_db_down env_four_db_down_axios)

text \<open>
  Claim C7, amended: let the registry return a list in which one webhook has malformed
  JSON in its headers or payload, while every other webhook has a string as its url,
  headers and payload that parse and, off the chat path, a payload that the template
  compiler accepts. Then the malformed webhook reports failure and no HTTP call is made
  for it; each of the others makes exactly one request, to its url, so the dispatch
  makes one request for each of the others, in the order of the list; each of the
  others reports success when its request is fulfilled and its update of
  \<^verbatim>\<open>last_triggered\<close> is executed; and the dispatch returns \<^verbatim>\<open>true\<close>, after all
  deliveries.
\<close>

theorem malformed_sibling_isolated:
  assumes rows: "webhook_rows E SelectByEvent [JStr ''event'', JStr eventType]
                   = Inr (before @ bad # after)"
    and bad: "parse_webhook E bad = Inl e"
    and enr: "enriched = enrichedData (if data = JUndefined then JObj [] else data)
                           eventType (now_iso E)"
    and sound: "\<forall>w \<in> set (before @ after). \<exists>u h p.
                  url w = JStr u \<and> parse_webhook E w = Inr (h, p)
                  \<and> (contains u discord_marker
                      \<or> (\<exists>c. compileTemplate (builtin E) p enriched = Inr c))"
  shows "fst (triggerEventWebhooks E eventType data) = Inr (JBool True)
       \<and> fst (executeWebhook E bad enriched) = Inr (JBool False)
       \<and> http_calls (snd (executeWebhook E bad enriched)) = []
       \<and> (\<forall>w \<in> set (before @ after). \<exists>req.
             http_calls (snd (executeWebhook E w enriched)) = [req] \<and> req_url req = url w)
       \<and> http_calls (snd (triggerEventWebhooks E eventType data))
           = concat (map (\<lambda>w. http_calls (snd (executeWebhook E w enriched))) (before @ after))
       \<and> length (http_calls (snd (triggerEventWebhooks E eventType data)))
           = length before + length after
       \<and> (\<forall>w \<in> set (before @ after). \<forall>req resp.
             req \<in> set (http_calls (snd (executeWebhook E w enriched)))
             \<and> axios E req = Inr resp
             \<and> execute E UpdateLastTriggered [wid w] = None
             \<longrightarrow> fst (executeWebhook E w enriched) = Inr (JBool True))"
proof (intro conjI)
  have ne: "before @ bad # after \<noteq> []" by simp
  note run = triggerEventWebhooks_rows [OF rows ne, of data]
  have def: "enriched \<noteq> JUndefined"
    unfolding enr by (rule enrichedData_defined)
  show "fst (triggerEventWebhooks E eventType data) = Inr (JBool True)"
    by (simp add: run)
  show "fst (executeWebhook E bad enriched) = Inr (JBool False)"
    by (rule malformed_not_sent [OF bad])
  show "http_calls (snd (executeWebhook E bad enriched)) = []"
    by (rule malformed_not_sent [OF bad])
  show one: "\<forall>w \<in> set (before @ after). \<exists>req.
             http_calls (snd (executeWebhook E w enriched)) = [req] \<and> req_url req = url w"
  proof
    fix w assume "w \<in> set (before @ after)"
    with sound obtain u h p where "url w = JStr u" "parse_webhook E w = Inr (h, p)"
      "contains u discord_marker \<or> (\<exists>c. compileTemplate (builtin E) p enriched = Inr c)"
      by blast
    then show "\<exists>req. http_calls (snd (executeWebhook E w enriched)) = [req]
                    \<and> req_url req = url w"
      using def by (rule sound_sibling_sends)
  qed
  show all: "http_calls (snd (triggerEventWebhooks E eventType data))
           = concat (map (\<lambda>w. http_calls (snd (executeWebhook E w enriched))) (before @ after))"
    unfolding run enr [symmetric]
    by (simp add: http_calls_dispatch del: map_append)
       (simp add: malformed_not_sent [OF bad])
  have "length (concat (map (\<lambda>w. http_calls (snd (executeWebhook E w enriched))) ws))
          = length ws" if "\<forall>w \<in> set ws. \<exists>req.
             http_calls (snd (executeWebhook E w enriched)) = [req] \<and> req_url req = url w"
    for ws
    using that by (induction ws) auto
  from this [OF one] all
  show "length (http_calls (snd (triggerEventWebhooks E eventType data)))
           = length before + length after"
    by simp
  show "\<forall>w \<in> set (before @ after). \<forall>req resp.
             req \<in> set (http_calls (snd (executeWebhook E w enriched)))
             \<and> axios E req = Inr resp
             \<and> execute E UpdateLastTriggered [wid w] = None
             \<longrightarrow> fst (executeWebhook E w enriched) = Inr (JBool True)"
    using delivered_true by blast
qed

text \<open>
  Claim C7, amended, on the registry with a malformed webhook between a generic one and
  a chat one: the dispatch makes two requests, first the generic one, then the chat one.
\<close>

theorem malformed_sibling_isolated_witness:
  "webhook_rows env_three SelectByEvent [JStr ''event'', JStr ''playback_started'']
     = Inr ([hook] @ broken_hook # [chat_hook])
   \<and> parse_webhook env_three broken_hook = Inl (SyntaxError ''Unexpected token in JSON'')
   \<and> fst (triggerEventWebhooks env_three ''playback_started'' alice) = Inr (JBool True)
   \<and> length (http_calls (snd (triggerEventWebhooks env_three ''playback_started'' alice))) = 2
   \<and> http_calls (snd (triggerEventWebhooks env_three ''playback_started'' alice)) =
     [\<lparr>req_method = JStr ''POST'', req_url = JStr ''https://example.org/hook'',
       req_headers = JObj [], req_data = JObj [(''user'', JStr ''alice'')],
       req_timeout = 10000\<rparr>,
      \<lparr>req_method = JStr ''POST'', req_url = JStr ''https://discord.com/api/webhooks/1/abc'',
       req_headers = JObj [(''Content-Type'', JStr ''application/json'')],
       req_data = JObj [(''content'', JStr ''hi {{userName}}'')],
       req_timeout = 10000\<rparr>]"
proof -
  let ?enriched = "enrichedData alice ''playback_started'' (now_iso env_three)"
  have rows: "webhook_rows env_three SelectByEvent [JStr ''event'', JStr ''playback_started'']
     = Inr ([hook] @ broken_hook # [chat_hook])"
    by (simp add: env_three_def)
  have enr: "?enriched = enrichedData (if alice = JUndefined then JObj [] else alice)
         ''playback_started'' (now_iso env_three)"
    by (simp add: alice_def)
  have h: "\<exists>u h p. url hook = JStr u \<and> parse_webhook env_three hook = Inr (h, p)
      \<and> (contains u discord_marker
          \<or> (\<exists>c. compileTemplate (builtin env_three) p ?enriched = Inr c))"
    using env_three_parse(2) env_three_compile by (simp add: hook_def)
  have c: "\<exists>u h p. url chat_hook = JStr u \<and> parse_webhook env_three chat_hook = Inr (h, p)
      \<and> (contains u discord_marker
          \<or> (\<exists>c. compileTemplate (builtin env_three) p ?enriched = Inr c))"
    using env_three_parse(3) chat_hook_marked by (simp add: chat_hook_def)
  have sound: "\<forall>w \<in> set ([hook] @ [chat_hook]). \<exists>u h p.
      url w = JStr u \<and> parse_webhook env_three w = Inr (h, p)
      \<and> (contains u discord_marker
          \<or> (\<exists>c. compileTemplate (builtin env_three) p ?enriched = Inr c))"
    using h c by simp
  note iso = malformed_sibling_isolated [OF rows env_three_parse(1) enr sound]
  from iso have t: "fst (triggerEventWebhooks env_three ''playback_started'' alice)
                      = Inr (JBool True)"
    by (rule conjunct1)
  from iso have n: "length (http_calls (snd (triggerEventWebhooks env_three
                      ''playback_started'' alice))) = length [hook] + length [chat_hook]"
    by blast
  from n have n2: "length (http_calls (snd (triggerEventWebhooks env_three
                      ''playback_started'' alice))) = 2"
    by simp
  show ?thesis
    by (intro conjI) (rule rows env_three_parse(1) t n2 run_three)+
qed

subsection \<open>The window of the monthly digest\<close>

text \<open>
  Claim C3 says that the two rankings and the statistics row are computed over the same
  previous calendar month, with the same start and the same end. On 31 March 2024 in
  Paris the rankings are asked from 31 January on, with no end at all (the ranking
  queries have a start date and a limit as their only parameters), and the statistics
  are asked from 29 February to 30 March: \<^verbatim>\<open>setMonth\<close> carries 31 February into March,
  and \<^verbatim>\<open>toISOString\<close> prints a local midnight east of Greenwich as the evening before.
\<close>

theorem digest_windows_differ:
  "today env_paris = \<lparr>getFullYear = 2024, getMonth = 2, getDate = 31, getDay = 0\<rparr>
   \<and> getTimezoneOffset env_paris (2024, 1, 1) = - 60
   \<and> statements (snd (getMonthlySummaryData env_paris)) =
     [(TopMovies, [JStr ''2024-01-31'', JNum 5]),
      (TopSeries, [JStr ''2024-01-31'', JNum 5]),
      (Stats, [JStr ''2024-02-29'', JStr ''2024-03-30''])]"
  by (simp add: run_digest_paris) (simp add: env_paris_def env_ok_def)

text \<open>
  Claim C3, amended: on a server whose local time is UTC or behind it, once the clock
  is past 1970, on a day of the month that the previous month has too, the monthly
  digest asks three things of the database, in this order: the five most watched
  movies and the five most watched series, each from the first day of the previous
  calendar month on, without an upper bound; and one statistics row between the first
  and the last day of the previous calendar month. The three lower bounds are the same
  date.
\<close>

theorem digest_windows:
  assumes year: "1970 \<le> getFullYear (today E)"
    and month: "0 \<le> getMonth (today E)" "getMonth (today E) \<le> 11"
    and prev: "prev_month (getFullYear (today E)) (getMonth (today E)) = (y, m)"
    and day: "1 \<le> getDate (today E)" "getDate (today E) \<le> days_in_month y m"
    and zone: "\<forall>ymd. 0 \<le> getTimezoneOffset E ymd \<and> getTimezoneOffset E ymd < 1440"
  shows "statements (snd (getMonthlySummaryData E)) =
           [(TopMovies, [JStr (iso_text (y, m, 1)), JNum 5]),
            (TopSeries, [JStr (iso_text (y, m, 1)), JNum 5]),
            (Stats, [JStr (iso_text (y, m, 1)), JStr (iso_text (y, m, days_in_month y m))])]"
proof -
  have year': "100 \<le> getFullYear (today E)"
    using year by simp
  have start: "new_Date (getFullYear (today E)) (getMonth (today E) - 1) 1 = (y, m, 1)"
    by (rule new_Date_previous_first [OF year' month prev])
  have m: "0 \<le> m" "m \<le> 11" and y: "100 \<le> y"
    using prev_month_range [OF month prev] year by simp_all
  have "(getFullYear (today E) + (getMonth (today E) - 1) div 12,
         (getMonth (today E) - 1) mod 12) = (y, m)"
    using month prev by (auto simp: prev_month_def split: if_splits)
  then have set: "setMonth (today E) (getMonth (today E) - 1) = (y, m, getDate (today E))"
    using day by (simp add: setMonth_def carry_day_in_range)
  have first: "iso_date E (y, m, 1) = iso_text (y, m, 1)"
    using zone days_in_month_pos [of y m] by (intro iso_date_same_day) simp_all
  have last: "iso_date E (y, m, days_in_month y m) = iso_text (y, m, days_in_month y m)"
    using zone days_in_month_pos [of y m] by (intro iso_date_same_day) simp_all
  have top: "statements (snd (getTopWatchedContent E c ''month'' (JNum 5)))
      = [(if c = ''movie'' then TopMovies else if c = ''series'' then TopSeries else NoStatement,
          [JStr (iso_text (y, m, 1)), JNum 5])]" for c
    by (simp add: getTopWatchedContent_def start first Let_def split: sum.splits)
  show ?thesis
    using top [of "''movie''"] top [of "''series''"]
    by (simp add: getMonthlySummaryData_def set new_Date_first [OF y m] new_Date_last [OF y m]
        first last Let_def case_prod_beta split: sum.splits)
qed

text \<open>
  Claim C3, amended, in New York on 15 January 2024: the previous month is December
  2023.
\<close>

theorem digest_windows_witness:
  "1970 \<le> getFullYear (today env_january)
   \<and> prev_month (getFullYear (today env_january)) (getMonth (today env_january)) = (2023, 11)
   \<and> getDate (today env_january) \<le> days_in_month 2023 11
   \<and> getTimezoneOffset env_january (2023, 11, 1) = 300
   \<and> statements (snd (getMonthlySummaryData env_january)) =
     [(TopMovies, [JStr ''2023-12-01'', JNum 5]),
      (TopSeries, [JStr ''2023-12-01'', JNum 5]),
      (Stats, [JStr ''2023-12-01'', JStr ''2023-12-31''])]"
proof -
  have t: "today env_january = \<lparr>getFullYear = 2024, getMonth = 0, getDate = 15, getDay = 1\<rparr>"
    and z: "getTimezoneOffset env_january ymd = 300" for ymd
    by (simp_all add: env_january_def)
  have 0: "1970 \<le> getFullYear (today env_january)"
    and 1: "0 \<le> getMonth (today env_january)" and 2: "getMonth (today env_january) \<le> 11"
    and 3: "prev_month (getFullYear (today env_january)) (getMonth (today env_january))
              = (2023, 11)"
    and 4: "1 \<le> getDate (today env_january)"
    and 5: "getDate (today env_january) \<le> days_in_month 2023 11"
    by (simp_all add: t prev_month_def days_in_month_def)
  have 6: "\<forall>ymd. 0 \<le> getTimezoneOffset env_january ymd \<and> getTimezoneOffset env_january ymd < 1440"
    by (simp add: z)
  have iso: "iso_text (2023, 11, 1) = ''2023-12-01''"
    "iso_text (2023, 11, days_in_month 2023 11) = ''2023-12-31''"
    by code_simp+
  from digest_windows [OF 0 1 2 3 4 5 6] 0 3 5 z [of "(2023, 11, 1)"] show ?thesis
    by (simp only: iso simp_thms)
qed

subsection \<open>The template compiler on null and on arrays\<close>

text \<open>
  What holds of the structure: numbers, booleans and \<open>undefined\<close> come back unchanged,
  and a mapping whose values compile comes back as a mapping with the same keys in the
  same order (the key \<^verbatim>\<open>__proto__\<close> apart, which an assignment does not create).
\<close>

lemma update_prop_fresh:
  "k \<notin> set (map fst ps) \<Longrightarrow> update_prop k v ps = ps @ [(k, v)]"
  by (induction ps) auto

lemma reduce_props_keys:
  assumes "reduce_props B kvs d acc = Inr r"
    and "distinct (map fst acc @ map fst kvs)"
    and "''__proto__'' \<notin> set (map fst kvs)"
  shows "map fst r = map fst acc @ map fst kvs"
  using assms
proof (induction kvs arbitrary: acc)
  case Nil
  then show ?case by simp
next
  case (Cons kv kvs)
  obtain k t where kv: "kv = (k, t)"
    by (cases kv)
  from Cons.prems(1) kv obtain v where v: "compileTemplate B t d = Inr v"
    and r: "reduce_props B kvs d (assign acc k v) = Inr r"
    by (auto split: sum.splits)
  have a: "assign acc k v = acc @ [(k, v)]"
    using Cons.prems(2,3) kv by (auto simp: assign_def update_prop_fresh)
  have "map fst r = map fst (assign acc k v) @ map fst kvs"
    using Cons.prems(2,3) kv by (intro Cons.IH [OF r]) (simp_all add: a)
  then show ?case
    by (simp add: a kv)
qed

lemma mapping_keys_kept:
  assumes "compileTemplate B (JObj kvs) d = Inr t'"
    and "distinct (map fst kvs)" and "''__proto__'' \<notin> set (map fst kvs)"
  shows "\<exists>kvs'. t' = JObj kvs' \<and> map fst kvs' = map fst kvs"
proof -
  from assms(1) obtain r where r: "reduce_props B kvs d [] = Inr r" and t': "t' = JObj r"
    by (auto split: sum.splits)
  from reduce_props_keys [OF r] assms(2,3) t' show ?thesis
    by simp
qed

lemma scalars_unchanged:
  "compileTemplate B (JNum n) d = Inr (JNum n)"
  "compileTemplate B (JBool b) d = Inr (JBool b)"
  "compileTemplate B JUndefined d = Inr JUndefined"
  by simp_all

text \<open>
  Claim C5 says that \<^verbatim>\<open>compileTemplate\<close> keeps the structure of a template: mappings
  keep their keys, sequences remain sequences, \<open>null\<close> is returned unchanged. The code
  tests \<^verbatim>\<open>typeof template === 'object'\<close>, which holds of \<open>null\<close> and of arrays too: on
  a template with a \<open>null\<close> value \<^verbatim>\<open>Object.keys\<close> throws, and an array comes back as a
  plain object keyed by its indices.
\<close>

theorem compileTemplate_null_and_array:
  "compileTemplate B (JObj [(''note'', JNull)]) data
     = Inl (TypeError ''Cannot convert undefined or null to object'')
   \<and> compileTemplate B (JArr [JNum 1, JBool True]) data
     = Inr (JObj [(''0'', JNum 1), (''1'', JBool True)])"
  by (simp add: assign_def show_nat_small)

subsection \<open>Unresolved placeholders\<close>

text \<open>
  What holds of unresolved paths: a match is exactly the text \<^verbatim>\<open>{{path}}\<close>; when the
  walk of every placeholder of a string ends on \<open>undefined\<close>, early or at the last
  segment, the string comes back unchanged; and the only exception a walk can raise is
  the \<open>TypeError\<close> of a property access on \<open>null\<close>.
\<close>

lemma match_here_text:
  assumes "match_here s = Some (p, rest)"
  shows "s = placeholder p @ rest"
proof -
  from assms obtain t where s: "s = CHR ''{'' # CHR ''{'' # t"
    and p: "p = takeWhile not_close t"
    and d: "dropWhile not_close t = CHR ''}'' # CHR ''}'' # rest"
    by (auto simp: match_here_def split: list.splits if_splits)
  have "t = takeWhile not_close t @ dropWhile not_close t"
    by simp
  with s p d show ?thesis
    by (simp add: placeholder_def)
qed

lemma replace_kept:
  assumes "\<forall>p \<in> set (placeholders s). f (placeholder p) p = Inr (JStr (placeholder p))"
  shows "replace f s = Inr s"
  using assms
proof (induction f s rule: replace.induct)
  case (1 f)
  show ?case by simp
next
  case (2 f c cs)
  show ?case
  proof (cases "match_here (c # cs)")
    case None
    with 2 show ?thesis by simp
  next
    case (Some pr)
    obtain p rest where pr: "pr = (p, rest)"
      by (cases pr)
    have f: "f (placeholder p) p = Inr (JStr (placeholder p))"
      using "2.prems" Some pr by simp
    have ts: "ToString (JStr (placeholder p)) = Inr (placeholder p)"
      by simp
    have "replace f rest = Inr rest"
      using "2.IH"(2) [OF Some pr [symmetric] f ts] "2.prems" Some pr by simp
    with Some pr f have "replace f (c # cs) = Inr (placeholder p @ rest)"
      by simp
    moreover have "c # cs = placeholder p @ rest"
      using Some pr by (intro match_here_text) simp
    ultimately show ?thesis
      by (simp only:)
  qed
qed

lemma callback_absent:
  assumes "walk B data (split_dot (trim path)) = Inr None
           \<or> walk B data (split_dot (trim path)) = Inr (Some JUndefined)"
  shows "callback B data m path = Inr (JStr m)"
  using assms by (auto simp: callback_def)

lemma unresolved_placeholders_kept:
  assumes "\<forall>p \<in> set (placeholders s).
             walk B data (split_dot (trim p)) = Inr None
             \<or> walk B data (split_dot (trim p)) = Inr (Some JUndefined)"
  shows "compileTemplate B (JStr s) data = Inr (JStr s)"
proof -
  have "replace (callback B data) s = Inr s"
    using assms by (intro replace_kept) (simp add: callback_absent)
  then show ?thesis by simp
qed

lemma get_prop_throws:
  "get_prop B v key = Inl e \<Longrightarrow> v = JUndefined \<or> v = JNull"
  by (cases v) (auto split: option.splits if_splits)

lemma walk_throws_on_null:
  "walk B v keys = Inl e \<Longrightarrow> \<exists>key \<in> set keys. e = TypeError (cannot_read ''null'' key)"
proof (induction keys arbitrary: v)
  case Nil
  then show ?case by simp
next
  case (Cons key keys)
  show ?case
  proof (cases "get_prop B v key")
    case (Inl e')
    with Cons.prems have "v = JNull" "e = e'"
      using get_prop_throws [OF Inl] by (auto split: if_splits)
    with Inl show ?thesis by simp
  next
    case (Inr v')
    with Cons show ?thesis by (auto split: if_splits)
  qed
qed

text \<open>
  Claim C4 says that a placeholder whose path does not resolve is left as it is and
  nothing is thrown, also when a value on the way is \<open>null\<close>. The loop guards the
  property access against \<open>undefined\<close> only: with \<open>null\<close> under \<^verbatim>\<open>user\<close>, the access
  \<^verbatim>\<open>value['name']\<close> throws.
\<close>

theorem null_on_path_throws:
  "compileTemplate B (JStr ''{{user.name}}'') (JObj [(''user'', JNull)])
     = Inl (TypeError ''Cannot read properties of null (reading 'name')'')"
  by (simp add: match_here_def not_close_def placeholder_def callback_def trim_def is_space_def
      cannot_read_def)

end
